theory Spec2Isabelle
  imports Main "HOL-Library.Word"
begin

section \<open>Data model (src/main.go, lines 22-52)\<close>

definition username :: string where
  "username = ''root''"

definition password :: string where
  "password = ''password''"

definition hostname :: string where
  "hostname = ''127.0.0.1:3306''"

text \<open>
  \<^verbatim>\<open>type payload struct { Name, Engine, Size string; Replicas int64 }\<close> and
  \<^verbatim>\<open>type metaData struct { Name, Engine, Size string; Replicas int64; uuid string }\<close>:
  the second struct has the fields of the first, in the same order, and one more.
\<close>

record payload =
  Name :: string
  Engine :: string
  Size :: string
  Replicas :: "64 word"

record metaData = payload +
  uuid :: string

text \<open>\<^verbatim>\<open>fmt.Sprintf("%s:%s@tcp(%s)/%s", username, password, hostname, dbName)\<close>\<close>

definition dsn :: "string \<Rightarrow> string" where
  "dsn dbName = username @ '':'' @ password @ ''@tcp('' @ hostname @ '')/'' @ dbName"

section \<open>Case folding\<close>

text \<open>
  \<^verbatim>\<open>strings.EqualFold\<close> belongs to Go's standard library, not to this repository. It
  reports whether two strings are equal under simple Unicode case folding, that is
  whether they have the same case-folded form. The function that yields the folded form
  of a string is a parameter of the model, so that nothing proved below depends on the
  Unicode tables.
\<close>

type_synonym folding = "string \<Rightarrow> string"

definition EqualFold :: "folding \<Rightarrow> string \<Rightarrow> string \<Rightarrow> bool" where
  "EqualFold cf s t = (cf s = cf t)"

text \<open>
  The folding of ASCII names, on which Go's \<^verbatim>\<open>EqualFold\<close> maps \<^verbatim>\<open>A-Z\<close> to
  \<^verbatim>\<open>a-z\<close> and leaves every other ASCII byte alone. It is the instance the concrete
  runs below use.
\<close>

definition lowerASCII :: "char \<Rightarrow> char" where
  "lowerASCII c =
     (let n = (of_char c :: nat) in if 65 \<le> n \<and> n \<le> 90 then char_of (n + 32) else c)"

definition asciiFold :: folding where
  "asciiFold s = map lowerASCII s"

section \<open>The registry lookup (src/main.go, lines 54-62)\<close>

text \<open>
  The \<^verbatim>\<open>for p, v := range metaDataList\<close> loop, with the position \<open>p\<close> of the head of
  the remaining slice carried along; \<open>-1\<close> when the loop ends without a match.
\<close>

fun findFrom :: "folding \<Rightarrow> metaData list \<Rightarrow> string \<Rightarrow> int \<Rightarrow> int" where
  "findFrom cf [] name p = - 1"
| "findFrom cf (v # vs) name p =
     (if EqualFold cf (Name v) name then p else findFrom cf vs name (p + 1))"

definition findRecordsByDBName :: "folding \<Rightarrow> metaData list \<Rightarrow> string \<Rightarrow> int" where
  "findRecordsByDBName cf metaDataList name = findFrom cf metaDataList name 0"

section \<open>The database engine as seen by one request\<close>

text \<open>
  What the engine does with a statement sent to it: it answers with a value, it answers
  with an error, or it does not answer at all.
\<close>

datatype 'a answer = Replies 'a | Refuses | Silent

datatype err = Failure | DeadlineExceeded

text \<open>
  A call made with \<^verbatim>\<open>context.WithTimeout(context.Background(), d)\<close> returns at the
  deadline with the context's error when the engine has not answered. A call made without
  a context waits for the answer: \<open>None\<close> stands for a call that never returns.
\<close>

fun withDeadline :: "nat \<Rightarrow> 'a answer \<Rightarrow> err + 'a" where
  "withDeadline d (Replies a) = Inr a"
| "withDeadline d Refuses = Inl Failure"
| "withDeadline d Silent = Inl DeadlineExceeded"

fun withoutDeadline :: "'a answer \<Rightarrow> (err + 'a) option" where
  "withoutDeadline (Replies a) = Some (Inr a)"
| "withoutDeadline Refuses = Some (Inl Failure)"
| "withoutDeadline Silent = None"

text \<open>
  The engine's side of one request: whether \<^verbatim>\<open>sql.Open\<close> accepts a driver name and a
  data source name (it opens no connection, it only validates its arguments), the answer
  to the \<^verbatim>\<open>CREATE\<close> or \<^verbatim>\<open>DROP\<close> statement, whether \<^verbatim>\<open>RowsAffected\<close> of its
  result is available, the answer to the ping and the answer to
  \<^verbatim>\<open>SELECT UUID_SHORT()\<close> as scanned into the \<^verbatim>\<open>int\<close> variable \<^verbatim>\<open>uuid\<close>.
\<close>

record engine =
  openOk :: "string \<Rightarrow> string \<Rightarrow> bool"
  execAns :: "unit answer"
  rowsOk :: bool
  pingAns :: "unit answer"
  uuidAns :: "int answer"

text \<open>
  The calls a handler makes on \<^verbatim>\<open>database/sql\<close>, in order. Handles are numbered in
  the order in which the request opens them; \<^verbatim>\<open>sql.Open\<close> yields a handle only when
  it succeeds. \<^verbatim>\<open>ExecContext\<close> and \<^verbatim>\<open>PingContext\<close> carry the timeout of their
  context in seconds; \<^verbatim>\<open>sql.Open\<close> and \<^verbatim>\<open>QueryRow\<close> take no context.
\<close>

type_synonym handle = nat

datatype call =
    SqlOpen string string "handle option"
  | ExecContext handle nat string
  | PingContext handle nat
  | QueryRow handle string
  | DBClose handle

text \<open>The deadline a call is issued under, if any.\<close>

fun deadline :: "call \<Rightarrow> nat option" where
  "deadline (SqlOpen driver d h) = None"
| "deadline (ExecContext h d stmt) = Some d"
| "deadline (PingContext h d) = Some d"
| "deadline (QueryRow h stmt) = None"
| "deadline (DBClose h) = None"

text \<open>The handles a sequence of calls has opened and not closed, oldest first.\<close>

fun openHandles :: "call list \<Rightarrow> handle list \<Rightarrow> handle list" where
  "openHandles [] hs = hs"
| "openHandles (SqlOpen driver d (Some h) # cs) hs = openHandles cs (hs @ [h])"
| "openHandles (DBClose h # cs) hs = openHandles cs (removeAll h hs)"
| "openHandles (c # cs) hs = openHandles cs hs"

section \<open>Formatting the identity (src/main.go, lines 150-153)\<close>

text \<open>\<^verbatim>\<open>fmt.Sprintf("%v", uuid)\<close> on an integer: its decimal digits, with a sign.\<close>

definition digit :: "nat \<Rightarrow> char" where
  "digit d = ''0123456789'' ! d"

fun showNat :: "nat \<Rightarrow> string" where
  "showNat n = (if n < 10 then [digit n] else showNat (n div 10) @ [digit (n mod 10)])"

declare showNat.simps [simp del]

definition showInt :: "int \<Rightarrow> string" where
  "showInt i = (if i < 0 then CHR ''-'' # showNat (nat (- i)) else showNat (nat i))"

text \<open>
  \<^verbatim>\<open>json.NewEncoder(w).Encode(d.uuid)\<close> on a string of digits: the string in double
  quotes, followed by a newline.
\<close>

definition encodeJSON :: "string \<Rightarrow> string" where
  "encodeJSON s = [CHR 0x22] @ s @ [CHR 0x22, CHR 0x0A]"

section \<open>The handlers (src/main.go, lines 64-205)\<close>

text \<open>
  Every way a handler ends: the \<^verbatim>\<open>panic(err)\<close> of line 71, a call that never
  returns, each \<^verbatim>\<open>return\<close> statement, and the end of the function body.
\<close>

datatype exit =
    Panicked
  | Blocked
  | DBPresent
  | DBNotPresent
  | OpenError
  | ExecError err
  | RowsError
  | ReopenError
  | PingError err
  | UUIDError
  | Created string
  | Deleted

text \<open>
  What a handler leaves behind: the value of \<^verbatim>\<open>metaDataList\<close>, what it wrote to the
  \<^verbatim>\<open>http.ResponseWriter\<close>, the calls it made on \<^verbatim>\<open>database/sql\<close>, and how it ended.
\<close>

record result =
  registry :: "metaData list"
  response :: "string list"
  calls :: "call list"
  exit :: exit

text \<open>
  Lines 81-153 of \<^verbatim>\<open>createDB\<close>, which do not touch \<^verbatim>\<open>metaDataList\<close>: open without a
  database name, create the database, close, open again with the name, ping, fetch the
  identity and write it to the response. The \<^verbatim>\<open>defer db.Close()\<close> of line 118 runs at
  every return that follows it. The pool settings of lines 124-126 send nothing to the
  engine and are left out.
\<close>

definition provision :: "payload \<Rightarrow> engine \<Rightarrow> exit \<times> call list \<times> string list" where
  "provision t eng =
     (if \<not> openOk eng (Engine t) (dsn [])
      then (OpenError, [SqlOpen (Engine t) (dsn []) None], [])
      else
        let c1 = [SqlOpen (Engine t) (dsn []) (Some 0),
                  ExecContext 0 5 (''CREATE DATABASE IF NOT EXISTS '' @ Name t)] in
        (case withDeadline 5 (execAns eng) of
           Inl e \<Rightarrow> (ExecError e, c1, [])
         | Inr _ \<Rightarrow>
             if \<not> rowsOk eng then (RowsError, c1, [])
             else if \<not> openOk eng (Engine t) (dsn (Name t))
             then (ReopenError, c1 @ [DBClose 0, SqlOpen (Engine t) (dsn (Name t)) None], [])
             else
               let c2 = c1 @ [DBClose 0, SqlOpen (Engine t) (dsn (Name t)) (Some 1),
                              PingContext 1 5] in
               (case withDeadline 5 (pingAns eng) of
                  Inl e \<Rightarrow> (PingError e, c2 @ [DBClose 1], [])
                | Inr _ \<Rightarrow>
                    let c3 = c2 @ [QueryRow 1 ''SELECT UUID_SHORT()''] in
                    (case withoutDeadline (uuidAns eng) of
                       None \<Rightarrow> (Blocked, c3, [])
                     | Some r \<Rightarrow>
                         (case r of
                            Inl e \<Rightarrow> (UUIDError, c3 @ [DBClose 1], [])
                          | Inr n \<Rightarrow>
                              (Created (showInt n), c3 @ [DBClose 1],
                               [''UUID of DB created: '', encodeJSON (showInt n)]))))))"

text \<open>\<^verbatim>\<open>metaData{t.Name, t.Engine, t.Size, t.Replicas, d.uuid}\<close> (line 156).\<close>

definition metaDataOf :: "payload \<Rightarrow> string \<Rightarrow> metaData" where
  "metaDataOf t u =
     \<lparr>Name = Name t, Engine = Engine t, Size = Size t, Replicas = Replicas t, uuid = u\<rparr>"

text \<open>
  \<^verbatim>\<open>createDB\<close>. The body of the request is given as what \<^verbatim>\<open>decoder.Decode(&t)\<close>
  makes of it: \<open>None\<close> when decoding fails (a body such as \<^verbatim>\<open>{\<close>), the payload
  otherwise.
\<close>

definition createDB :: "folding \<Rightarrow> metaData list \<Rightarrow> payload option \<Rightarrow> engine \<Rightarrow> result" where
  "createDB cf metaDataList body eng =
     (case body of
        None \<Rightarrow> \<lparr>registry = metaDataList, response = [], calls = [], exit = Panicked\<rparr>
      | Some t \<Rightarrow>
          if findRecordsByDBName cf metaDataList (Name t) \<noteq> - 1
          then \<lparr>registry = metaDataList, response = [], calls = [], exit = DBPresent\<rparr>
          else
            (case provision t eng of (e, cs, out) \<Rightarrow>
               \<lparr>registry =
                  (case e of
                     Created u \<Rightarrow> metaDataList @ [metaDataOf t u]
                   | _ \<Rightarrow> metaDataList),
                response = out, calls = cs, exit = e\<rparr>))"

text \<open>
  \<^verbatim>\<open>deleteDB\<close>, on the value of the query parameter \<^verbatim>\<open>dbName\<close>. The slice
  expressions of line 198 panic when \<open>p\<close> is out of range; the deferred
  \<^verbatim>\<open>db.Close()\<close> of line 179 runs then too.
\<close>

definition deleteDB :: "folding \<Rightarrow> metaData list \<Rightarrow> string \<Rightarrow> engine \<Rightarrow> result" where
  "deleteDB cf metaDataList dbName eng =
     (let p = findRecordsByDBName cf metaDataList dbName in
      if p = - 1
      then \<lparr>registry = metaDataList, response = [], calls = [], exit = DBNotPresent\<rparr>
      else if \<not> openOk eng ''mysql'' (dsn dbName)
      then \<lparr>registry = metaDataList, response = [],
            calls = [SqlOpen ''mysql'' (dsn dbName) None], exit = OpenError\<rparr>
      else
        let c1 = [SqlOpen ''mysql'' (dsn dbName) (Some 0),
                  ExecContext 0 5 (''DROP DATABASE '' @ dbName)] in
        (case withDeadline 5 (execAns eng) of
          Inl e \<Rightarrow> \<lparr>registry = metaDataList, response = [],
                     calls = c1 @ [DBClose 0], exit = ExecError e\<rparr>
        | Inr _ \<Rightarrow>
            if \<not> rowsOk eng
            then \<lparr>registry = metaDataList, response = [],
                  calls = c1 @ [DBClose 0], exit = RowsError\<rparr>
            else if 0 \<le> p \<and> p < int (length metaDataList)
            then \<lparr>registry = take (nat p) metaDataList @ drop (nat p + 1) metaDataList,
                  response = [], calls = c1 @ [DBClose 0], exit = Deleted\<rparr>
            else \<lparr>registry = metaDataList, response = [],
                  calls = c1 @ [DBClose 0], exit = Panicked\<rparr>))"

text \<open>\<^verbatim>\<open>getMetadata\<close>: what \<^verbatim>\<open>log.Println(metaDataList)\<close> lists.\<close>

definition getMetadata :: "metaData list \<Rightarrow> metaData list" where
  "getMetadata metaDataList = metaDataList"

section \<open>Serving requests one after another (src/main.go, lines 207-220)\<close>

text \<open>
  The three routes \<^verbatim>\<open>main\<close> registers. A request carries what the handler reads from
  it and the engine's side of that request.
\<close>

datatype request =
    ReqCreateDB "payload option" engine
  | ReqDeleteDB string engine
  | ReqGetMetadata

text \<open>
  The value of \<^verbatim>\<open>metaDataList\<close> after one request. A handler that panics or never
  returns has not written to it; \<^verbatim>\<open>getMetadata\<close> only reads it.
\<close>

fun serveOne :: "folding \<Rightarrow> metaData list \<Rightarrow> request \<Rightarrow> metaData list" where
  "serveOne cf metaDataList (ReqCreateDB body eng) = registry (createDB cf metaDataList body eng)"
| "serveOne cf metaDataList (ReqDeleteDB dbName eng) = registry (deleteDB cf metaDataList dbName eng)"
| "serveOne cf metaDataList ReqGetMetadata = metaDataList"

fun serve :: "folding \<Rightarrow> metaData list \<Rightarrow> request list \<Rightarrow> metaData list" where
  "serve cf metaDataList [] = metaDataList"
| "serve cf metaDataList (r # rs) = serve cf (serveOne cf metaDataList r) rs"

text \<open>
  A run of create requests, each served on the registry the one before it left; the
  result is the final registry and how each request ended.
\<close>

fun createAll :: "folding \<Rightarrow> metaData list \<Rightarrow> (payload \<times> engine) list \<Rightarrow> metaData list \<times> exit list" where
  "createAll cf metaDataList [] = (metaDataList, [])"
| "createAll cf metaDataList (req # reqs) =
     (let r = createDB cf metaDataList (Some (fst req)) (snd req);
          rest = createAll cf (registry r) reqs
      in (fst rest, exit r # snd rest))"

fun isCreated :: "exit \<Rightarrow> bool" where
  "isCreated (Created u) = True"
| "isCreated e = False"

fun uuidOf :: "exit \<Rightarrow> string" where
  "uuidOf (Created u) = u"
| "uuidOf e = []"

section \<open>Two creates in progress at once\<close>

text \<open>
  \<^verbatim>\<open>net/http\<close> runs every request in a goroutine of its own, and \<open>createDB\<close> takes
  no lock. It reads \<^verbatim>\<open>metaDataList\<close> in the lookup of line 74, and reads and writes it
  in the append of line 157; lines 81-156 in between do not touch it. A create whose body
  has been decoded is therefore at line 74, or at line 157 with its record built, or it
  has ended.
\<close>

datatype progress =
    Arrived payload engine
  | Provisioned metaData
  | Ended exit

text \<open>
  One step of a create on the shared \<^verbatim>\<open>metaDataList\<close>: from line 74 to line 157 or
  to an earlier end, and from line 157 to the end.
\<close>

fun stepCreate :: "folding \<Rightarrow> metaData list \<Rightarrow> progress \<Rightarrow> metaData list \<times> progress" where
  "stepCreate cf metaDataList (Arrived t eng) =
     (if findRecordsByDBName cf metaDataList (Name t) \<noteq> - 1
      then (metaDataList, Ended DBPresent)
      else
        (case fst (provision t eng) of
           Created u \<Rightarrow> (metaDataList, Provisioned (metaDataOf t u))
         | e \<Rightarrow> (metaDataList, Ended e)))"
| "stepCreate cf metaDataList (Provisioned m) = (metaDataList @ [m], Ended (Created (uuid m)))"
| "stepCreate cf metaDataList (Ended e) = (metaDataList, Ended e)"

text \<open>
  Two creates and the order in which their goroutines take their steps.
\<close>

datatype goroutine = First | Second

fun interleave ::
  "folding \<Rightarrow> goroutine list \<Rightarrow> metaData list \<times> progress \<times> progress \<Rightarrow>
     metaData list \<times> progress \<times> progress" where
  "interleave cf [] s = s"
| "interleave cf (First # sched) (metaDataList, a, b) =
     (case stepCreate cf metaDataList a of
        (metaDataList', a') \<Rightarrow> interleave cf sched (metaDataList', a', b))"
| "interleave cf (Second # sched) (metaDataList, a, b) =
     (case stepCreate cf metaDataList b of
        (metaDataList', b') \<Rightarrow> interleave cf sched (metaDataList', a, b'))"

text \<open>The number of records whose name equals \<open>name\<close> under case folding.\<close>

definition countName :: "folding \<Rightarrow> metaData list \<Rightarrow> string \<Rightarrow> nat" where
  "countName cf metaDataList name =
     length (filter (\<lambda>v. EqualFold cf (Name v) name) metaDataList)"

text \<open>Concrete values for the runs evaluated below.\<close>

definition engineUp :: engine where
  "engineUp = \<lparr>openOk = (\<lambda>driver d. driver = ''mysql''), execAns = Replies (),
               rowsOk = True, pingAns = Replies (), uuidAns = Replies 100934786117271616\<rparr>"

definition spec1 :: payload where
  "spec1 = \<lparr>Name = ''dbName1'', Engine = ''mysql'', Size = ''20MB'', Replicas = 2\<rparr>"

definition spec1Upper :: payload where
  "spec1Upper = \<lparr>Name = ''DBNAME1'', Engine = ''mysql'', Size = ''1GB'', Replicas = 1\<rparr>"

definition spec2 :: payload where
  "spec2 = \<lparr>Name = ''dbName2'', Engine = ''mysql'', Size = ''5MB'', Replicas = 1\<rparr>"

definition spec3 :: payload where
  "spec3 = \<lparr>Name = ''dbName3'', Engine = ''mysql'', Size = ''5MB'', Replicas = 3\<rparr>"

definition record1 :: metaData where
  "record1 = \<lparr>Name = ''dbName1'', Engine = ''mysql'', Size = ''20MB'', Replicas = 2,
              uuid = ''100934786117271616''\<rparr>"

definition record2 :: metaData where
  "record2 = \<lparr>Name = ''dbName2'', Engine = ''mysql'', Size = ''5MB'', Replicas = 1,
              uuid = ''100934786117271617''\<rparr>"

definition record3 :: metaData where
  "record3 = \<lparr>Name = ''dbName3'', Engine = ''mysql'', Size = ''5MB'', Replicas = 3,
              uuid = ''100934786117271618''\<rparr>"

definition record1Upper :: metaData where
  "record1Upper = \<lparr>Name = ''DBNAME1'', Engine = ''mysql'', Size = ''1GB'', Replicas = 1,
                   uuid = ''100934786117271617''\<rparr>"

section \<open>Facts about the lookup\<close>

lemma findFrom_range:
  "0 \<le> p \<Longrightarrow> findFrom cf vs name p = - 1 \<or>
     (p \<le> findFrom cf vs name p \<and> findFrom cf vs name p < p + int (length vs))"
proof (induction vs arbitrary: p)
  case Nil
  then show ?case by simp
next
  case (Cons v vs)
  from Cons.IH [of "p + 1"] Cons.prems show ?case by auto
qed

lemma findFrom_none_iff:
  "0 \<le> p \<Longrightarrow>
     (findFrom cf vs name p = - 1) = (\<forall>v\<in>set vs. \<not> EqualFold cf (Name v) name)"
proof (induction vs arbitrary: p)
  case Nil
  then show ?case by simp
next
  case (Cons v vs)
  from Cons.IH [of "p + 1"] Cons.prems show ?case by auto
qed

lemma find_none_iff:
  "(findRecordsByDBName cf vs name = - 1) = (\<forall>v\<in>set vs. \<not> EqualFold cf (Name v) name)"
  unfolding findRecordsByDBName_def by (rule findFrom_none_iff) simp

lemma find_range:
  "findRecordsByDBName cf vs name \<noteq> - 1 \<Longrightarrow>
     0 \<le> findRecordsByDBName cf vs name \<and> findRecordsByDBName cf vs name < int (length vs)"
  unfolding findRecordsByDBName_def using findFrom_range [of 0 cf vs name] by auto

lemma findFrom_hit:
  "0 \<le> p \<Longrightarrow> findFrom cf vs name p \<noteq> - 1 \<Longrightarrow>
     EqualFold cf (Name (vs ! nat (findFrom cf vs name p - p))) name \<and>
     (\<forall>v\<in>set (take (nat (findFrom cf vs name p - p)) vs). \<not> EqualFold cf (Name v) name)"
proof (induction vs arbitrary: p)
  case Nil
  then show ?case by simp
next
  case (Cons v vs)
  show ?case
  proof (cases "EqualFold cf (Name v) name")
    case True
    then show ?thesis by simp
  next
    case False
    let ?r = "findFrom cf vs name (p + 1)"
    from False Cons.prems have r: "?r \<noteq> - 1" by simp
    from findFrom_range [of "p + 1" cf vs name] Cons.prems r have ge: "p + 1 \<le> ?r" by auto
    then have n: "nat (?r - p) = Suc (nat (?r - (p + 1)))" by simp
    from Cons.IH [of "p + 1"] Cons.prems r False show ?thesis by (simp add: n)
  qed
qed

lemma find_hit:
  "findRecordsByDBName cf vs name \<noteq> - 1 \<Longrightarrow>
     EqualFold cf (Name (vs ! nat (findRecordsByDBName cf vs name))) name \<and>
     (\<forall>v\<in>set (take (nat (findRecordsByDBName cf vs name)) vs). \<not> EqualFold cf (Name v) name)"
  unfolding findRecordsByDBName_def using findFrom_hit [of 0 cf vs name] by simp

section \<open>Facts about the handlers\<close>

lemma provision_Created:
  "fst (provision t eng) = Created u \<Longrightarrow>
     openOk eng (Engine t) (dsn []) \<and> execAns eng = Replies () \<and> rowsOk eng \<and>
     openOk eng (Engine t) (dsn (Name t)) \<and> pingAns eng = Replies () \<and>
     (\<exists>n. uuidAns eng = Replies n \<and> u = showInt n)"
  unfolding provision_def
  by (cases "execAns eng"; cases "pingAns eng"; cases "uuidAns eng")
     (auto simp: Let_def split: if_splits)

lemma createDB_registry:
  "registry (createDB cf mdl body eng) =
     (case exit (createDB cf mdl body eng) of
        Created u \<Rightarrow> mdl @ [\<lparr>Name = Name (the body), Engine = Engine (the body),
                              Size = Size (the body), Replicas = Replicas (the body), uuid = u\<rparr>]
      | _ \<Rightarrow> mdl)"
  unfolding createDB_def metaDataOf_def by (auto split: option.splits prod.splits exit.splits)

lemma createDB_Created:
  "exit (createDB cf mdl body eng) = Created u \<Longrightarrow>
     \<exists>t. body = Some t \<and> findRecordsByDBName cf mdl (Name t) = - 1 \<and>
         fst (provision t eng) = Created u"
  unfolding createDB_def by (auto split: option.splits prod.splits if_splits)

lemma createDB_present:
  "findRecordsByDBName cf mdl (Name t) \<noteq> - 1 \<Longrightarrow>
     createDB cf mdl (Some t) eng =
       \<lparr>registry = mdl, response = [], calls = [], exit = DBPresent\<rparr>"
  unfolding createDB_def by simp

lemma createDB_absent:
  "findRecordsByDBName cf mdl (Name t) = - 1 \<Longrightarrow>
     createDB cf mdl (Some t) eng =
       \<lparr>registry =
          (case fst (provision t eng) of Created u \<Rightarrow> mdl @ [metaDataOf t u] | _ \<Rightarrow> mdl),
        response = snd (snd (provision t eng)),
        calls = fst (snd (provision t eng)),
        exit = fst (provision t eng)\<rparr>"
  unfolding createDB_def by (simp split: prod.splits)

lemma countName_zero_iff:
  "(countName cf mdl name = 0) = (findRecordsByDBName cf mdl name = - 1)"
  unfolding countName_def find_none_iff by (simp add: filter_empty_conv)

lemma countName_append:
  "countName cf (xs @ ys) name = countName cf xs name + countName cf ys name"
  unfolding countName_def by simp

lemma countName_cong:
  "EqualFold cf a b \<Longrightarrow> countName cf mdl a = countName cf mdl b"
  unfolding countName_def EqualFold_def by simp

lemma createDB_count:
  "countName cf (registry (createDB cf mdl body eng)) name \<le> max 1 (countName cf mdl name)"
proof (cases "\<exists>u. exit (createDB cf mdl body eng) = Created u")
  case False
  then have "registry (createDB cf mdl body eng) = mdl"
    by (simp add: createDB_registry split: exit.splits)
  then show ?thesis by simp
next
  case True
  then obtain u where u: "exit (createDB cf mdl body eng) = Created u" by blast
  from createDB_Created [OF u] obtain t where
    t: "body = Some t" "findRecordsByDBName cf mdl (Name t) = - 1" by blast
  let ?m = "\<lparr>Name = Name t, Engine = Engine t, Size = Size t, Replicas = Replicas t, uuid = u\<rparr>"
  have reg: "registry (createDB cf mdl body eng) = mdl @ [?m]"
    using u t by (simp add: createDB_registry)
  show ?thesis
  proof (cases "EqualFold cf (Name t) name")
    case True
    from t have "countName cf mdl (Name t) = 0" by (simp add: countName_zero_iff)
    with True have "countName cf mdl name = 0" by (simp add: countName_cong)
    then show ?thesis by (simp add: reg countName_append) (simp add: countName_def)
  next
    case False
    then show ?thesis by (simp add: reg countName_append) (simp add: countName_def)
  qed
qed

lemma deleteDB_cases:
  "deleteDB cf mdl dbName eng =
     (if findRecordsByDBName cf mdl dbName = - 1
      then \<lparr>registry = mdl, response = [], calls = [], exit = DBNotPresent\<rparr>
      else if \<not> openOk eng ''mysql'' (dsn dbName)
      then \<lparr>registry = mdl, response = [],
            calls = [SqlOpen ''mysql'' (dsn dbName) None], exit = OpenError\<rparr>
      else
        \<lparr>registry =
           (if execAns eng = Replies () \<and> rowsOk eng
            then take (nat (findRecordsByDBName cf mdl dbName)) mdl @
                 drop (Suc (nat (findRecordsByDBName cf mdl dbName))) mdl
            else mdl),
         response = [],
         calls = [SqlOpen ''mysql'' (dsn dbName) (Some 0),
                  ExecContext 0 5 (''DROP DATABASE '' @ dbName), DBClose 0],
         exit =
           (case execAns eng of
              Replies _ \<Rightarrow> if rowsOk eng then Deleted else RowsError
            | Refuses \<Rightarrow> ExecError Failure
            | Silent \<Rightarrow> ExecError DeadlineExceeded)\<rparr>)"
proof (cases "findRecordsByDBName cf mdl dbName = - 1")
  case True
  then show ?thesis by (simp add: deleteDB_def)
next
  case False
  from find_range [OF False] show ?thesis
    unfolding deleteDB_def using False
    by (cases "execAns eng") (simp_all add: Let_def)
qed

lemma deleteDB_Deleted:
  "exit (deleteDB cf mdl dbName eng) = Deleted \<Longrightarrow>
     findRecordsByDBName cf mdl dbName \<noteq> - 1 \<and> openOk eng ''mysql'' (dsn dbName) \<and>
     execAns eng = Replies () \<and> rowsOk eng"
  by (cases "execAns eng") (auto simp: deleteDB_cases split: if_splits)

lemma deleteDB_registry:
  "registry (deleteDB cf mdl dbName eng) =
     (if exit (deleteDB cf mdl dbName eng) = Deleted
      then take (nat (findRecordsByDBName cf mdl dbName)) mdl @
           drop (Suc (nat (findRecordsByDBName cf mdl dbName))) mdl
      else mdl)"
  by (cases "execAns eng") (auto simp: deleteDB_cases)

section \<open>Facts about removing one element of a list\<close>

lemma distinct_remove_nth: "distinct xs \<Longrightarrow> distinct (take p xs @ drop (Suc p) xs)"
proof (cases "p < length xs")
  case True
  assume d: "distinct xs"
  from id_take_nth_drop [OF True] have "xs = take p xs @ xs ! p # drop (Suc p) xs" .
  with d have "distinct (take p xs @ xs ! p # drop (Suc p) xs)" by simp
  then show ?thesis by simp
next
  case False
  assume "distinct xs"
  with False show ?thesis by simp
qed

lemma filter_remove_nth:
  "p < length xs \<Longrightarrow> P (xs ! p) \<Longrightarrow>
     Suc (length (filter P (take p xs @ drop (Suc p) xs))) = length (filter P xs)"
proof -
  assume p: "p < length xs" and h: "P (xs ! p)"
  have "length (filter P xs) = length (filter P (take p xs @ xs ! p # drop (Suc p) xs))"
    using id_take_nth_drop [OF p] by simp
  with h show ?thesis by simp
qed

lemma distinct_map_filter_le1:
  "distinct (map f xs) \<Longrightarrow> length (filter (\<lambda>v. f v = a) xs) \<le> 1"
proof (induction xs)
  case Nil
  then show ?case by simp
next
  case (Cons x xs)
  show ?case
  proof (cases "f x = a")
    case True
    from Cons.prems have "f x \<notin> f ` set xs" by simp
    with True have "\<forall>v\<in>set xs. f v \<noteq> a" by blast
    then have "filter (\<lambda>v. f v = a) xs = []" by (simp add: filter_empty_conv)
    with True show ?thesis by simp
  next
    case False
    with Cons show ?thesis by simp
  qed
qed

section \<open>One record for each folded name\<close>

lemma createDB_distinct:
  assumes "distinct (map (\<lambda>v. cf (Name v)) mdl)"
  shows "distinct (map (\<lambda>v. cf (Name v)) (registry (createDB cf mdl body eng)))"
proof (cases "\<exists>u. exit (createDB cf mdl body eng) = Created u")
  case False
  then have "registry (createDB cf mdl body eng) = mdl"
    by (simp add: createDB_registry split: exit.splits)
  with assms show ?thesis by simp
next
  case True
  then obtain u where u: "exit (createDB cf mdl body eng) = Created u" by blast
  from createDB_Created [OF u] obtain t where
    t: "body = Some t" "findRecordsByDBName cf mdl (Name t) = - 1" by blast
  from t(2) have "\<forall>v\<in>set mdl. cf (Name v) \<noteq> cf (Name t)"
    by (simp add: find_none_iff EqualFold_def)
  then have "cf (Name t) \<notin> set (map (\<lambda>v. cf (Name v)) mdl)" by auto
  with assms u t(1) show ?thesis by (simp add: createDB_registry)
qed

lemma deleteDB_distinct:
  assumes "distinct (map (\<lambda>v. cf (Name v)) mdl)"
  shows "distinct (map (\<lambda>v. cf (Name v)) (registry (deleteDB cf mdl dbName eng)))"
proof (cases "exit (deleteDB cf mdl dbName eng) = Deleted")
  case False
  with assms show ?thesis by (simp add: deleteDB_registry)
next
  case True
  let ?p = "nat (findRecordsByDBName cf mdl dbName)"
  from distinct_remove_nth [OF assms, of ?p]
  have "distinct (map (\<lambda>v. cf (Name v)) (take ?p mdl @ drop (Suc ?p) mdl))"
    by (simp add: take_map drop_map)
  with True show ?thesis by (simp add: deleteDB_registry)
qed

lemma serveOne_distinct:
  "distinct (map (\<lambda>v. cf (Name v)) mdl) \<Longrightarrow> distinct (map (\<lambda>v. cf (Name v)) (serveOne cf mdl r))"
  by (cases r) (simp_all add: createDB_distinct deleteDB_distinct)

lemma serve_distinct:
  "distinct (map (\<lambda>v. cf (Name v)) mdl) \<Longrightarrow> distinct (map (\<lambda>v. cf (Name v)) (serve cf mdl rs))"
proof (induction rs arbitrary: mdl)
  case Nil
  then show ?case by simp
next
  case (Cons r rs)
  from Cons.IH [OF serveOne_distinct [OF Cons.prems]] show ?case by simp
qed

lemma countName_le1:
  "distinct (map (\<lambda>v. cf (Name v)) mdl) \<Longrightarrow> countName cf mdl name \<le> 1"
  unfolding countName_def EqualFold_def by (rule distinct_map_filter_le1)

lemma deleteDB_count:
  assumes "exit (deleteDB cf mdl dbName eng) = Deleted"
  shows "Suc (countName cf (registry (deleteDB cf mdl dbName eng)) dbName) = countName cf mdl dbName"
proof -
  let ?p = "nat (findRecordsByDBName cf mdl dbName)"
  from deleteDB_Deleted [OF assms] have found: "findRecordsByDBName cf mdl dbName \<noteq> - 1"
    by blast
  from find_range [OF found] have p: "?p < length mdl" by linarith
  from find_hit [OF found] have hit: "EqualFold cf (Name (mdl ! ?p)) dbName" by blast
  from filter_remove_nth [of ?p mdl "\<lambda>v. EqualFold cf (Name v) dbName", OF p hit] assms
  show ?thesis by (simp add: countName_def deleteDB_registry)
qed

section \<open>Facts about creation\<close>

lemma createDB_appends:
  "registry (createDB cf mdl (Some t) eng) =
     mdl @ (if isCreated (exit (createDB cf mdl (Some t) eng))
            then [metaDataOf t (uuidOf (exit (createDB cf mdl (Some t) eng)))] else [])"
  by (cases "exit (createDB cf mdl (Some t) eng)") (simp_all add: createDB_registry metaDataOf_def)

lemma provision_response:
  "fst (provision t eng) = Created u \<Longrightarrow>
     snd (snd (provision t eng)) = [''UUID of DB created: '', encodeJSON u]"
  unfolding provision_def
  by (cases "execAns eng"; cases "pingAns eng"; cases "uuidAns eng")
     (auto simp: Let_def split: if_splits)

lemma createDB_response:
  "exit (createDB cf mdl body eng) = Created u \<Longrightarrow>
     response (createDB cf mdl body eng) = [''UUID of DB created: '', encodeJSON u]"
proof -
  assume u: "exit (createDB cf mdl body eng) = Created u"
  from createDB_Created [OF u] obtain t where
    t: "body = Some t" "findRecordsByDBName cf mdl (Name t) = - 1"
       "fst (provision t eng) = Created u" by blast
  from t(1,2) have "response (createDB cf mdl body eng) = snd (snd (provision t eng))"
    by (simp add: createDB_def split: prod.splits)
  with provision_response [OF t(3)] show ?thesis by simp
qed

lemma concat_map2_all:
  "list_all P ys \<Longrightarrow>
     concat (map2 (\<lambda>x y. if P y then [g x y] else []) xs ys) = map2 g xs ys"
proof (induction xs arbitrary: ys)
  case Nil
  then show ?case by simp
next
  case (Cons x xs)
  then show ?case by (cases ys) simp_all
qed

lemma createAll_registry:
  "fst (createAll cf mdl reqs) =
     mdl @ concat (map2 (\<lambda>req e. if isCreated e then [metaDataOf (fst req) (uuidOf e)] else [])
                     reqs (snd (createAll cf mdl reqs)))"
proof (induction reqs arbitrary: mdl)
  case Nil
  then show ?case by simp
next
  case (Cons req reqs)
  let ?r = "createDB cf mdl (Some (fst req)) (snd req)"
  from Cons.IH [of "registry ?r"] createDB_appends [of cf mdl "fst req" "snd req"]
  show ?case by (simp add: Let_def)
qed

section \<open>Facts about the calls on the engine\<close>

lemma provision_open_handles:
  "openHandles (fst (snd (provision t eng))) [] =
     (case fst (provision t eng) of
        ExecError e \<Rightarrow> [0]
      | RowsError \<Rightarrow> [0]
      | Blocked \<Rightarrow> [1]
      | _ \<Rightarrow> [])"
  unfolding provision_def
  by (cases "execAns eng"; cases "pingAns eng"; cases "uuidAns eng") (simp_all add: Let_def)

lemma createDB_open_handles:
  "openHandles (calls (createDB cf mdl body eng)) [] =
     (case exit (createDB cf mdl body eng) of
        ExecError e \<Rightarrow> [0]
      | RowsError \<Rightarrow> [0]
      | Blocked \<Rightarrow> [1]
      | _ \<Rightarrow> [])"
proof (cases body)
  case None
  then show ?thesis by (simp add: createDB_def)
next
  case (Some t)
  show ?thesis
  proof (cases "findRecordsByDBName cf mdl (Name t) = - 1")
    case False
    with Some show ?thesis by (simp add: createDB_def)
  next
    case True
    with Some provision_open_handles [of t eng] show ?thesis
      by (simp add: createDB_absent)
  qed
qed

lemma deleteDB_open_handles:
  "openHandles (calls (deleteDB cf mdl dbName eng)) [] = []"
  by (simp add: deleteDB_cases)

lemma provision_deadlines:
  "c \<in> set (fst (snd (provision t eng))) \<Longrightarrow>
     (case c of ExecContext h d stmt \<Rightarrow> d = 5 | PingContext h d \<Rightarrow> d = 5 | _ \<Rightarrow> True)"
  unfolding provision_def
  by (cases "execAns eng"; cases "pingAns eng"; cases "uuidAns eng")
     (auto simp: Let_def split: if_splits)

lemma createDB_deadlines:
  "c \<in> set (calls (createDB cf mdl body eng)) \<Longrightarrow>
     (case c of ExecContext h d stmt \<Rightarrow> d = 5 | PingContext h d \<Rightarrow> d = 5 | _ \<Rightarrow> True)"
proof (cases body)
  case None
  assume "c \<in> set (calls (createDB cf mdl body eng))"
  with None show ?thesis by (simp add: createDB_def)
next
  case (Some t)
  assume c: "c \<in> set (calls (createDB cf mdl body eng))"
  show ?thesis
  proof (cases "findRecordsByDBName cf mdl (Name t) = - 1")
    case False
    with Some c show ?thesis by (simp add: createDB_def)
  next
    case True
    with Some c have "c \<in> set (fst (snd (provision t eng)))"
      by (simp add: createDB_absent)
    then show ?thesis by (rule provision_deadlines)
  qed
qed

lemma deleteDB_deadlines:
  "c \<in> set (calls (deleteDB cf mdl dbName eng)) \<Longrightarrow>
     (case c of ExecContext h d stmt \<Rightarrow> d = 5 | PingContext h d \<Rightarrow> d = 5 | _ \<Rightarrow> True)"
  by (auto simp: deleteDB_cases split: if_splits)

lemma provision_no_response:
  "\<forall>u. fst (provision t eng) \<noteq> Created u \<Longrightarrow> snd (snd (provision t eng)) = []"
  unfolding provision_def
  by (cases "execAns eng"; cases "pingAns eng"; cases "uuidAns eng")
     (auto simp: Let_def split: if_splits)

lemma createDB_no_response:
  assumes "\<forall>u. exit (createDB cf mdl body eng) \<noteq> Created u"
  shows "response (createDB cf mdl body eng) = []"
proof (cases body)
  case None
  then show ?thesis by (simp add: createDB_def)
next
  case (Some t)
  show ?thesis
  proof (cases "findRecordsByDBName cf mdl (Name t) = - 1")
    case False
    with Some show ?thesis by (simp add: createDB_def)
  next
    case True
    with Some assms have "\<forall>u. fst (provision t eng) \<noteq> Created u"
      by (simp add: createDB_absent)
    from provision_no_response [OF this] Some True show ?thesis
      by (simp add: createDB_absent)
  qed
qed

section \<open>Facts about the steps of a create\<close>

lemma stepCreate_twice:
  "stepCreate cf (fst (stepCreate cf mdl (Arrived t eng))) (snd (stepCreate cf mdl (Arrived t eng)))
     = (registry (createDB cf mdl (Some t) eng), Ended (exit (createDB cf mdl (Some t) eng)))"
proof (cases "findRecordsByDBName cf mdl (Name t) = - 1")
  case False
  then show ?thesis by (simp add: createDB_present)
next
  case True
  then show ?thesis
    by (cases "fst (provision t eng)") (simp_all add: createDB_absent metaDataOf_def)
qed

lemma interleave_serial:
  "interleave cf [First, First, Second, Second] (mdl, Arrived t1 e1, Arrived t2 e2) =
     (registry (createDB cf (registry (createDB cf mdl (Some t1) e1)) (Some t2) e2),
      Ended (exit (createDB cf mdl (Some t1) e1)),
      Ended (exit (createDB cf (registry (createDB cf mdl (Some t1) e1)) (Some t2) e2)))"
proof -
  obtain m1 a1 where s1: "stepCreate cf mdl (Arrived t1 e1) = (m1, a1)" by fastforce
  obtain m2 a2 where s2: "stepCreate cf m1 a1 = (m2, a2)" by fastforce
  obtain m3 b3 where s3: "stepCreate cf m2 (Arrived t2 e2) = (m3, b3)" by fastforce
  obtain m4 b4 where s4: "stepCreate cf m3 b3 = (m4, b4)" by fastforce
  from stepCreate_twice [of cf mdl t1 e1] s1 s2
  have r1: "m2 = registry (createDB cf mdl (Some t1) e1)"
           "a2 = Ended (exit (createDB cf mdl (Some t1) e1))" by simp_all
  from stepCreate_twice [of cf m2 t2 e2] s3 s4
  have r2: "m4 = registry (createDB cf m2 (Some t2) e2)"
           "b4 = Ended (exit (createDB cf m2 (Some t2) e2))" by simp_all
  have "interleave cf [First, First, Second, Second] (mdl, Arrived t1 e1, Arrived t2 e2) =
      (m4, a2, b4)"
    by (simp only: interleave.simps s1 s2 s3 s4 prod.case)
  with r1 r2 show ?thesis by simp
qed

lemma interleave_serial':
  "interleave cf [Second, Second, First, First] (mdl, Arrived t1 e1, Arrived t2 e2) =
     (registry (createDB cf (registry (createDB cf mdl (Some t2) e2)) (Some t1) e1),
      Ended (exit (createDB cf (registry (createDB cf mdl (Some t2) e2)) (Some t1) e1)),
      Ended (exit (createDB cf mdl (Some t2) e2)))"
proof -
  obtain m1 b1 where s1: "stepCreate cf mdl (Arrived t2 e2) = (m1, b1)" by fastforce
  obtain m2 b2 where s2: "stepCreate cf m1 b1 = (m2, b2)" by fastforce
  obtain m3 a3 where s3: "stepCreate cf m2 (Arrived t1 e1) = (m3, a3)" by fastforce
  obtain m4 a4 where s4: "stepCreate cf m3 a3 = (m4, a4)" by fastforce
  from stepCreate_twice [of cf mdl t2 e2] s1 s2
  have r1: "m2 = registry (createDB cf mdl (Some t2) e2)"
           "b2 = Ended (exit (createDB cf mdl (Some t2) e2))" by simp_all
  from stepCreate_twice [of cf m2 t1 e1] s3 s4
  have r2: "m4 = registry (createDB cf m2 (Some t1) e1)"
           "a4 = Ended (exit (createDB cf m2 (Some t1) e1))" by simp_all
  have "interleave cf [Second, Second, First, First] (mdl, Arrived t1 e1, Arrived t2 e2) =
      (m4, a4, b2)"
    by (simp only: interleave.simps s1 s2 s3 s4 prod.case)
  with r1 r2 show ?thesis by simp
qed

section \<open>Concrete runs\<close>

lemma showNat_prefix: "showNat 10093478611727161 = ''10093478611727161''"
  by (simp add: showNat.simps digit_def)

lemma showNat_uuid: "showNat 100934786117271616 = ''100934786117271616''"
  by (subst showNat.simps) (simp add: showNat_prefix digit_def)

lemma showNat_uuid2: "showNat 100934786117271617 = ''100934786117271617''"
  by (subst showNat.simps) (simp add: showNat_prefix digit_def)

lemma showNat_uuid3: "showNat 100934786117271618 = ''100934786117271618''"
  by (subst showNat.simps) (simp add: showNat_prefix digit_def)

lemma showInt_uuid: "showInt 100934786117271616 = ''100934786117271616''"
  by (simp add: showInt_def showNat_uuid)

lemma showInt_uuid2: "showInt 100934786117271617 = ''100934786117271617''"
  by (simp add: showInt_def showNat_uuid2)

lemma showInt_uuid3: "showInt 100934786117271618 = ''100934786117271618''"
  by (simp add: showInt_def showNat_uuid3)

lemma asciiFold_dbName2: "asciiFold ''dbName2'' = ''dbname2''"
  by code_simp

lemma asciiFold_dbName3: "asciiFold ''dbName3'' = ''dbname3''"
  by code_simp

lemma asciiFold_dbName1: "asciiFold ''dbName1'' = ''dbname1''"
  by code_simp

lemma asciiFold_DBNAME1: "asciiFold ''DBNAME1'' = ''dbname1''"
  by code_simp

lemma EqualFold_dbName1: "EqualFold asciiFold ''dbName1'' ''DBNAME1''"
  by (simp add: EqualFold_def asciiFold_dbName1 asciiFold_DBNAME1)

lemma create_spec1:
  "createDB asciiFold [] (Some spec1) engineUp =
     \<lparr>registry = [record1],
      response = [''UUID of DB created: '', encodeJSON ''100934786117271616''],
      calls = [SqlOpen ''mysql'' (dsn []) (Some 0),
               ExecContext 0 5 ''CREATE DATABASE IF NOT EXISTS dbName1'',
               DBClose 0,
               SqlOpen ''mysql'' (dsn ''dbName1'') (Some 1),
               PingContext 1 5,
               QueryRow 1 ''SELECT UUID_SHORT()'',
               DBClose 1],
      exit = Created ''100934786117271616''\<rparr>"
  by (simp add: createDB_def provision_def findRecordsByDBName_def spec1_def engineUp_def
      record1_def metaDataOf_def showInt_uuid)

lemma asciiFold_ghost: "asciiFold ''ghost'' = ''ghost''"
  by code_simp

lemma delete_record1:
  "deleteDB asciiFold [record1] ''DBNAME1'' engineUp =
     \<lparr>registry = [], response = [],
      calls = [SqlOpen ''mysql'' (dsn ''DBNAME1'') (Some 0),
               ExecContext 0 5 ''DROP DATABASE DBNAME1'', DBClose 0],
      exit = Deleted\<rparr>"
  using EqualFold_dbName1
  by (simp add: deleteDB_def findRecordsByDBName_def record1_def engineUp_def)

lemma create_ping_silent:
  "createDB asciiFold [] (Some spec1) (engineUp\<lparr>pingAns := Silent\<rparr>) =
     \<lparr>registry = [], response = [],
      calls = [SqlOpen ''mysql'' (dsn []) (Some 0),
               ExecContext 0 5 ''CREATE DATABASE IF NOT EXISTS dbName1'',
               DBClose 0,
               SqlOpen ''mysql'' (dsn ''dbName1'') (Some 1),
               PingContext 1 5,
               DBClose 1],
      exit = PingError DeadlineExceeded\<rparr>"
  by (simp add: createDB_def provision_def findRecordsByDBName_def spec1_def engineUp_def)

lemma delete_refused:
  "deleteDB asciiFold [record1] ''DBNAME1'' (engineUp\<lparr>execAns := Refuses\<rparr>) =
     \<lparr>registry = [record1], response = [],
      calls = [SqlOpen ''mysql'' (dsn ''DBNAME1'') (Some 0),
               ExecContext 0 5 ''DROP DATABASE DBNAME1'', DBClose 0],
      exit = ExecError Failure\<rparr>"
  using EqualFold_dbName1
  by (simp add: deleteDB_def findRecordsByDBName_def record1_def engineUp_def)

lemma delete_ghost:
  "deleteDB asciiFold [record1] ''ghost'' engineUp =
     \<lparr>registry = [record1], response = [], calls = [], exit = DBNotPresent\<rparr>"
  by (simp add: deleteDB_def findRecordsByDBName_def record1_def EqualFold_def
      asciiFold_dbName1 asciiFold_ghost)

lemma create_spec2:
  "registry (createDB asciiFold [record1] (Some spec2)
      (engineUp\<lparr>uuidAns := Replies 100934786117271617\<rparr>)) = [record1, record2] \<and>
   exit (createDB asciiFold [record1] (Some spec2)
      (engineUp\<lparr>uuidAns := Replies 100934786117271617\<rparr>)) = Created ''100934786117271617''"
  by (simp add: createDB_def provision_def findRecordsByDBName_def spec2_def engineUp_def
      record1_def record2_def metaDataOf_def showInt_uuid2 EqualFold_def
      asciiFold_dbName1 asciiFold_dbName2)

lemma create_spec3:
  "registry (createDB asciiFold [record1, record2] (Some spec3)
      (engineUp\<lparr>uuidAns := Replies 100934786117271618\<rparr>)) = [record1, record2, record3] \<and>
   exit (createDB asciiFold [record1, record2] (Some spec3)
      (engineUp\<lparr>uuidAns := Replies 100934786117271618\<rparr>)) = Created ''100934786117271618''"
  by (simp add: createDB_def provision_def findRecordsByDBName_def spec3_def engineUp_def
      record1_def record2_def record3_def metaDataOf_def showInt_uuid3 EqualFold_def
      asciiFold_dbName1 asciiFold_dbName2 asciiFold_dbName3)

lemma delete_middle:
  "registry (deleteDB asciiFold [record1, record2, record3] ''dbName2'' engineUp) =
     [record1, record3] \<and>
   exit (deleteDB asciiFold [record1, record2, record3] ''dbName2'' engineUp) = Deleted"
  by (simp add: deleteDB_def findRecordsByDBName_def engineUp_def
      record1_def record2_def record3_def EqualFold_def
      asciiFold_dbName1 asciiFold_dbName2 asciiFold_dbName3)

lemma create_spec1Upper:
  "createDB asciiFold [record1] (Some spec1Upper) engineUp =
     \<lparr>registry = [record1], response = [], calls = [], exit = DBPresent\<rparr>"
  using EqualFold_dbName1
  by (simp add: createDB_def findRecordsByDBName_def spec1Upper_def record1_def)

lemma createAll_three:
  "createAll asciiFold []
     [(spec1, engineUp), (spec2, engineUp\<lparr>uuidAns := Replies 100934786117271617\<rparr>),
      (spec3, engineUp\<lparr>uuidAns := Replies 100934786117271618\<rparr>)] =
   ([record1, record2, record3],
    [Created ''100934786117271616'', Created ''100934786117271617'',
     Created ''100934786117271618''])"
  by (simp add: Let_def create_spec1 create_spec2 create_spec3)

lemma delete_upper:
  "registry (deleteDB asciiFold [record1, record2] ''DBNAME1'' engineUp) = [record2] \<and>
   exit (deleteDB asciiFold [record1, record2] ''DBNAME1'' engineUp) = Deleted"
  by (simp add: deleteDB_def findRecordsByDBName_def engineUp_def
      record1_def record2_def EqualFold_def asciiFold_dbName1 asciiFold_DBNAME1)

lemma create_refused:
  "createDB asciiFold [] (Some spec1) (engineUp\<lparr>execAns := Refuses\<rparr>) =
     \<lparr>registry = [], response = [],
      calls = [SqlOpen ''mysql'' (dsn []) (Some 0),
               ExecContext 0 5 ''CREATE DATABASE IF NOT EXISTS dbName1''],
      exit = ExecError Failure\<rparr>"
  by (simp add: createDB_def provision_def findRecordsByDBName_def spec1_def engineUp_def)

lemma create_exec_silent:
  "createDB asciiFold [] (Some spec1) (engineUp\<lparr>execAns := Silent\<rparr>) =
     \<lparr>registry = [], response = [],
      calls = [SqlOpen ''mysql'' (dsn []) (Some 0),
               ExecContext 0 5 ''CREATE DATABASE IF NOT EXISTS dbName1''],
      exit = ExecError DeadlineExceeded\<rparr>"
  by (simp add: createDB_def provision_def findRecordsByDBName_def spec1_def engineUp_def)

lemma create_uuid_silent:
  "createDB asciiFold [] (Some spec1) (engineUp\<lparr>uuidAns := Silent\<rparr>) =
     \<lparr>registry = [], response = [],
      calls = [SqlOpen ''mysql'' (dsn []) (Some 0),
               ExecContext 0 5 ''CREATE DATABASE IF NOT EXISTS dbName1'',
               DBClose 0,
               SqlOpen ''mysql'' (dsn ''dbName1'') (Some 1),
               PingContext 1 5,
               QueryRow 1 ''SELECT UUID_SHORT()''],
      exit = Blocked\<rparr>"
  by (simp add: createDB_def provision_def findRecordsByDBName_def spec1_def engineUp_def)

lemma delete_silent:
  "deleteDB asciiFold [record1] ''DBNAME1'' (engineUp\<lparr>execAns := Silent\<rparr>) =
     \<lparr>registry = [record1], response = [],
      calls = [SqlOpen ''mysql'' (dsn ''DBNAME1'') (Some 0),
               ExecContext 0 5 ''DROP DATABASE DBNAME1'', DBClose 0],
      exit = ExecError DeadlineExceeded\<rparr>"
  using EqualFold_dbName1
  by (simp add: deleteDB_def findRecordsByDBName_def record1_def engineUp_def)

lemma create_malformed:
  "createDB asciiFold [] None engineUp =
     \<lparr>registry = [], response = [], calls = [], exit = Panicked\<rparr>"
  by (simp add: createDB_def)

lemma provision_spec1:
  "fst (provision spec1 engineUp) = Created ''100934786117271616''"
  by (simp add: provision_def spec1_def engineUp_def showInt_uuid)

lemma provision_spec1Upper:
  "fst (provision spec1Upper (engineUp\<lparr>uuidAns := Replies 100934786117271617\<rparr>)) =
     Created ''100934786117271617''"
  by (simp add: provision_def spec1Upper_def engineUp_def showInt_uuid2)

lemma metaDataOf_spec1: "metaDataOf spec1 ''100934786117271616'' = record1"
  by (simp add: metaDataOf_def spec1_def record1_def)

lemma metaDataOf_spec1Upper: "metaDataOf spec1Upper ''100934786117271617'' = record1Upper"
  by (simp add: metaDataOf_def spec1Upper_def record1Upper_def)

lemma step_spec1:
  "stepCreate asciiFold [] (Arrived spec1 engineUp) = ([], Provisioned record1)"
  by (simp add: findRecordsByDBName_def provision_spec1 metaDataOf_spec1)

lemma step_spec1Upper:
  "stepCreate asciiFold []
     (Arrived spec1Upper (engineUp\<lparr>uuidAns := Replies 100934786117271617\<rparr>)) =
     ([], Provisioned record1Upper)"
  by (simp add: findRecordsByDBName_def provision_spec1Upper metaDataOf_spec1Upper)

section \<open>Duplicate creation\<close>

text \<open>
  Claim C1. When the registry already holds a record whose name equals the name of the
  request under case folding, \<open>createDB\<close> ends on its "DB is present" return, having
  made no call on the engine and written no response, and the registry is the one it
  found. In particular a create that follows a successful create of a name equal under
  case folding is rejected in this way, and two successive creates never leave more than
  one record of that name where there was none or one before.
\<close>

theorem createDB_duplicate_rejected:
  "((\<exists>v\<in>set metaDataList. EqualFold cf (Name v) (Name t)) \<longrightarrow>
      createDB cf metaDataList (Some t) eng =
        \<lparr>registry = metaDataList, response = [], calls = [], exit = DBPresent\<rparr>) \<and>
   (EqualFold cf (Name t) (Name t') \<and> exit (createDB cf metaDataList (Some t) eng) = Created u \<longrightarrow>
      createDB cf (registry (createDB cf metaDataList (Some t) eng)) (Some t') eng' =
        \<lparr>registry = registry (createDB cf metaDataList (Some t) eng), response = [],
         calls = [], exit = DBPresent\<rparr>) \<and>
   (EqualFold cf (Name t) (Name t') \<longrightarrow>
      countName cf
        (registry (createDB cf (registry (createDB cf metaDataList (Some t) eng)) (Some t') eng'))
        (Name t)
      \<le> max 1 (countName cf metaDataList (Name t)))"
proof (intro conjI impI)
  assume "\<exists>v\<in>set metaDataList. EqualFold cf (Name v) (Name t)"
  then have "findRecordsByDBName cf metaDataList (Name t) \<noteq> - 1"
    by (simp add: find_none_iff)
  then show "createDB cf metaDataList (Some t) eng =
      \<lparr>registry = metaDataList, response = [], calls = [], exit = DBPresent\<rparr>"
    by (rule createDB_present)
next
  let ?r = "createDB cf metaDataList (Some t) eng"
  assume a: "EqualFold cf (Name t) (Name t') \<and> exit ?r = Created u"
  then have "registry ?r = metaDataList @
      [\<lparr>Name = Name t, Engine = Engine t, Size = Size t, Replicas = Replicas t, uuid = u\<rparr>]"
    by (simp add: createDB_registry)
  with a have "\<exists>v\<in>set (registry ?r). EqualFold cf (Name v) (Name t')" by simp
  then have "findRecordsByDBName cf (registry ?r) (Name t') \<noteq> - 1"
    by (simp add: find_none_iff)
  then show "createDB cf (registry ?r) (Some t') eng' =
      \<lparr>registry = registry ?r, response = [], calls = [], exit = DBPresent\<rparr>"
    by (rule createDB_present)
next
  let ?r = "createDB cf metaDataList (Some t) eng"
  have "countName cf (registry (createDB cf (registry ?r) (Some t') eng')) (Name t)
      \<le> max 1 (countName cf (registry ?r) (Name t))"
    by (rule createDB_count)
  moreover have "countName cf (registry ?r) (Name t) \<le> max 1 (countName cf metaDataList (Name t))"
    by (rule createDB_count)
  ultimately show "countName cf (registry (createDB cf (registry ?r) (Some t') eng')) (Name t)
      \<le> max 1 (countName cf metaDataList (Name t))"
    by simp
qed

text \<open>
  The theorem at the registry that holds \<^verbatim>\<open>dbName1\<close>, for a request that names
  \<^verbatim>\<open>DBNAME1\<close>, and at the empty registry for the two requests in a row.
\<close>

theorem createDB_duplicate_rejected_witness:
  "(\<exists>v\<in>set [record1]. EqualFold asciiFold (Name v) (Name spec1Upper)) \<and>
   createDB asciiFold [record1] (Some spec1Upper) engineUp =
     \<lparr>registry = [record1], response = [], calls = [], exit = DBPresent\<rparr> \<and>
   EqualFold asciiFold (Name spec1) (Name spec1Upper) \<and>
   exit (createDB asciiFold [] (Some spec1) engineUp) = Created ''100934786117271616'' \<and>
   createDB asciiFold (registry (createDB asciiFold [] (Some spec1) engineUp))
       (Some spec1Upper) engineUp =
     \<lparr>registry = [record1], response = [], calls = [], exit = DBPresent\<rparr> \<and>
   countName asciiFold
     (registry (createDB asciiFold (registry (createDB asciiFold [] (Some spec1) engineUp))
        (Some spec1Upper) engineUp)) (Name spec1) \<le> 1"
proof -
  have h1: "\<exists>v\<in>set [record1]. EqualFold asciiFold (Name v) (Name spec1Upper)"
    using EqualFold_dbName1 by (simp add: record1_def spec1Upper_def)
  have h2: "EqualFold asciiFold (Name spec1) (Name spec1Upper)"
    using EqualFold_dbName1 by (simp add: spec1_def spec1Upper_def)
  have h3: "exit (createDB asciiFold [] (Some spec1) engineUp) = Created ''100934786117271616''"
    by (simp add: create_spec1)
  have r: "registry (createDB asciiFold [] (Some spec1) engineUp) = [record1]"
    by (simp add: create_spec1)
  have c: "countName asciiFold [] (Name spec1) = 0"
    by (simp add: countName_def)
  note a = createDB_duplicate_rejected
         [of "[record1]" asciiFold spec1Upper engineUp spec1Upper "''100934786117271616''" engineUp]
  note b = createDB_duplicate_rejected
         [of "[]" asciiFold spec1 engineUp spec1Upper "''100934786117271616''" engineUp]
  from a h1 have a': "createDB asciiFold [record1] (Some spec1Upper) engineUp =
     \<lparr>registry = [record1], response = [], calls = [], exit = DBPresent\<rparr>"
    by (elim conjE) simp
  from b h2 h3 have b1: "createDB asciiFold (registry (createDB asciiFold [] (Some spec1) engineUp))
       (Some spec1Upper) engineUp =
     \<lparr>registry = registry (createDB asciiFold [] (Some spec1) engineUp), response = [],
      calls = [], exit = DBPresent\<rparr>"
    by (elim conjE) simp
  from b h2 have b2: "countName asciiFold
     (registry (createDB asciiFold (registry (createDB asciiFold [] (Some spec1) engineUp))
        (Some spec1Upper) engineUp)) (Name spec1) \<le> max 1 (countName asciiFold [] (Name spec1))"
    by (elim conjE) simp
  from h1 h2 h3 a' b1 b2 show ?thesis
    by (simp only: r c) simp
qed

section \<open>The registry changes only when the engine has confirmed\<close>

text \<open>
  Claim C2. \<open>createDB\<close> changes the registry only by appending one record, and only
  when both opens, the \<^verbatim>\<open>CREATE\<close> statement, the reading of its result, the ping and
  the identity fetch have all succeeded; whenever it ends in any other way than by
  creating, the registry is the one it found. \<open>deleteDB\<close> changes the registry only by
  removing one record, and only when the open, the \<^verbatim>\<open>DROP\<close> statement and the reading
  of its result have succeeded; whenever it ends in any other way than by deleting, the
  registry is the one it found.
\<close>

theorem registry_changes_only_on_success:
  "(registry (createDB cf metaDataList body eng) \<noteq> metaDataList \<longrightarrow>
      (\<exists>t n. body = Some t \<and> openOk eng (Engine t) (dsn []) \<and> execAns eng = Replies () \<and>
         rowsOk eng \<and> openOk eng (Engine t) (dsn (Name t)) \<and> pingAns eng = Replies () \<and>
         uuidAns eng = Replies n \<and>
         registry (createDB cf metaDataList body eng) =
           metaDataList @ [\<lparr>Name = Name t, Engine = Engine t, Size = Size t,
                             Replicas = Replicas t, uuid = showInt n\<rparr>])) \<and>
   ((\<forall>u. exit (createDB cf metaDataList body eng) \<noteq> Created u) \<longrightarrow>
      registry (createDB cf metaDataList body eng) = metaDataList) \<and>
   (registry (deleteDB cf metaDataList dbName eng') \<noteq> metaDataList \<longrightarrow>
      openOk eng' ''mysql'' (dsn dbName) \<and> execAns eng' = Replies () \<and> rowsOk eng' \<and>
      (\<exists>p<length metaDataList.
         registry (deleteDB cf metaDataList dbName eng') =
           take p metaDataList @ drop (Suc p) metaDataList)) \<and>
   (exit (deleteDB cf metaDataList dbName eng') \<noteq> Deleted \<longrightarrow>
      registry (deleteDB cf metaDataList dbName eng') = metaDataList)"
proof -
  let ?r = "createDB cf metaDataList body eng"
  let ?d = "deleteDB cf metaDataList dbName eng'"
  have A: "registry ?r \<noteq> metaDataList \<longrightarrow>
      (\<exists>t n. body = Some t \<and> openOk eng (Engine t) (dsn []) \<and> execAns eng = Replies () \<and>
         rowsOk eng \<and> openOk eng (Engine t) (dsn (Name t)) \<and> pingAns eng = Replies () \<and>
         uuidAns eng = Replies n \<and>
         registry ?r = metaDataList @ [\<lparr>Name = Name t, Engine = Engine t, Size = Size t,
                             Replicas = Replicas t, uuid = showInt n\<rparr>])"
  proof
    assume changed: "registry ?r \<noteq> metaDataList"
    then obtain u where u: "exit ?r = Created u"
      by (cases "exit ?r") (simp_all add: createDB_registry)
    from createDB_Created [OF u] obtain t where
      t: "body = Some t" "fst (provision t eng) = Created u" by blast
    from provision_Created [OF t(2)] obtain n where
      n: "uuidAns eng = Replies n" "u = showInt n" by blast
    have "registry ?r = metaDataList @ [\<lparr>Name = Name t, Engine = Engine t, Size = Size t,
        Replicas = Replicas t, uuid = showInt n\<rparr>]"
      using u t(1) n(2) by (simp add: createDB_registry)
    with provision_Created [OF t(2)] t(1) n(1)
    show "\<exists>t n. body = Some t \<and> openOk eng (Engine t) (dsn []) \<and> execAns eng = Replies () \<and>
           rowsOk eng \<and> openOk eng (Engine t) (dsn (Name t)) \<and> pingAns eng = Replies () \<and>
           uuidAns eng = Replies n \<and>
           registry ?r = metaDataList @ [\<lparr>Name = Name t, Engine = Engine t, Size = Size t,
                               Replicas = Replicas t, uuid = showInt n\<rparr>]"
      by blast
  qed
  have B: "(\<forall>u. exit ?r \<noteq> Created u) \<longrightarrow> registry ?r = metaDataList"
  proof
    assume "\<forall>u. exit ?r \<noteq> Created u"
    then show "registry ?r = metaDataList"
      by (cases "exit ?r") (simp_all add: createDB_registry)
  qed
  have C: "registry ?d \<noteq> metaDataList \<longrightarrow>
      openOk eng' ''mysql'' (dsn dbName) \<and> execAns eng' = Replies () \<and> rowsOk eng' \<and>
      (\<exists>p<length metaDataList. registry ?d = take p metaDataList @ drop (Suc p) metaDataList)"
  proof
    assume changed: "registry ?d \<noteq> metaDataList"
    then have del: "exit ?d = Deleted"
      by (simp add: deleteDB_registry split: if_splits)
    note ok = deleteDB_Deleted [OF del]
    from ok have found: "findRecordsByDBName cf metaDataList dbName \<noteq> - 1" by blast
    from find_range [OF found]
    have "nat (findRecordsByDBName cf metaDataList dbName) < length metaDataList" by linarith
    moreover from del have "registry ?d =
        take (nat (findRecordsByDBName cf metaDataList dbName)) metaDataList @
        drop (Suc (nat (findRecordsByDBName cf metaDataList dbName))) metaDataList"
      by (simp add: deleteDB_registry)
    ultimately have "\<exists>p<length metaDataList.
        registry ?d = take p metaDataList @ drop (Suc p) metaDataList"
      by blast
    with ok show "openOk eng' ''mysql'' (dsn dbName) \<and> execAns eng' = Replies () \<and> rowsOk eng' \<and>
        (\<exists>p<length metaDataList. registry ?d = take p metaDataList @ drop (Suc p) metaDataList)"
      by blast
  qed
  have D: "exit ?d \<noteq> Deleted \<longrightarrow> registry ?d = metaDataList"
    by (simp add: deleteDB_registry)
  show ?thesis
    by (rule conjI [OF A conjI [OF B conjI [OF C D]]])
qed

text \<open>
  The theorem at a create and a delete that succeed, and at a create whose ping gets no
  answer and a delete whose \<^verbatim>\<open>DROP\<close> is refused.
\<close>

theorem registry_changes_only_on_success_witness:
  "registry (createDB asciiFold [] (Some spec1) engineUp) \<noteq> [] \<and>
   registry (createDB asciiFold [] (Some spec1) engineUp) = [] @ [record1] \<and>
   (\<forall>u. exit (createDB asciiFold [] (Some spec1) (engineUp\<lparr>pingAns := Silent\<rparr>)) \<noteq> Created u) \<and>
   registry (createDB asciiFold [] (Some spec1) (engineUp\<lparr>pingAns := Silent\<rparr>)) = [] \<and>
   registry (deleteDB asciiFold [record1] ''DBNAME1'' engineUp) \<noteq> [record1] \<and>
   (\<exists>p<length [record1]. registry (deleteDB asciiFold [record1] ''DBNAME1'' engineUp) =
      take p [record1] @ drop (Suc p) [record1]) \<and>
   exit (deleteDB asciiFold [record1] ''DBNAME1'' (engineUp\<lparr>execAns := Refuses\<rparr>)) \<noteq> Deleted \<and>
   registry (deleteDB asciiFold [record1] ''DBNAME1'' (engineUp\<lparr>execAns := Refuses\<rparr>)) = [record1]"
proof -
  have h1: "registry (createDB asciiFold [] (Some spec1) engineUp) \<noteq> []"
    by (simp add: create_spec1)
  have h2: "\<forall>u. exit (createDB asciiFold [] (Some spec1) (engineUp\<lparr>pingAns := Silent\<rparr>)) \<noteq> Created u"
    by (simp add: create_ping_silent)
  have h3: "registry (deleteDB asciiFold [record1] ''DBNAME1'' engineUp) \<noteq> [record1]"
    by (simp add: delete_record1)
  have h4: "exit (deleteDB asciiFold [record1] ''DBNAME1'' (engineUp\<lparr>execAns := Refuses\<rparr>)) \<noteq> Deleted"
    by (simp add: delete_refused)
  have c1: "registry (createDB asciiFold [] (Some spec1) engineUp) = [] @ [record1]"
    by (simp add: create_spec1)
  from registry_changes_only_on_success
         [of asciiFold "[]" "Some spec1" "engineUp\<lparr>pingAns := Silent\<rparr>" "''DBNAME1''" engineUp] h2
  have c2: "registry (createDB asciiFold [] (Some spec1) (engineUp\<lparr>pingAns := Silent\<rparr>)) = []"
    by (elim conjE) simp
  from registry_changes_only_on_success
         [of asciiFold "[record1]" "Some spec1" engineUp "''DBNAME1''" engineUp] h3
  have c3: "\<exists>p<length [record1]. registry (deleteDB asciiFold [record1] ''DBNAME1'' engineUp) =
      take p [record1] @ drop (Suc p) [record1]"
    by (elim conjE) simp
  from registry_changes_only_on_success
         [of asciiFold "[record1]" "Some spec1" engineUp "''DBNAME1''"
             "engineUp\<lparr>execAns := Refuses\<rparr>"] h4
  have c4: "registry (deleteDB asciiFold [record1] ''DBNAME1'' (engineUp\<lparr>execAns := Refuses\<rparr>))
      = [record1]"
    by (elim conjE) simp
  from h1 c1 h2 c2 h3 c3 h4 c4 show ?thesis by blast
qed

section \<open>Deleting a database that is not registered\<close>

text \<open>
  Claim C4. When no record of the registry has a name equal to \<open>dbName\<close> under case
  folding, \<open>deleteDB\<close> ends on its "DB is not present" return: the registry is the one
  it found, and it has made no call on the engine, neither an open nor a statement.
\<close>

theorem deleteDB_unknown:
  "(\<forall>v\<in>set metaDataList. \<not> EqualFold cf (Name v) dbName) \<Longrightarrow>
     deleteDB cf metaDataList dbName eng =
       \<lparr>registry = metaDataList, response = [], calls = [], exit = DBNotPresent\<rparr>"
  by (simp add: deleteDB_cases find_none_iff)

text \<open>The theorem at the registry that holds \<^verbatim>\<open>dbName1\<close>, for the name \<^verbatim>\<open>ghost\<close>.\<close>

theorem deleteDB_unknown_witness:
  "\<not> EqualFold asciiFold (Name record1) ''ghost'' \<and>
   deleteDB asciiFold [record1] ''ghost'' engineUp =
     \<lparr>registry = [record1], response = [], calls = [], exit = DBNotPresent\<rparr>"
proof -
  have h: "\<not> EqualFold asciiFold (Name record1) ''ghost''"
    by (simp add: record1_def EqualFold_def asciiFold_dbName1 asciiFold_ghost)
  then have "\<forall>v\<in>set [record1]. \<not> EqualFold asciiFold (Name v) ''ghost''"
    by simp
  from h deleteDB_unknown [OF this, of engineUp] show ?thesis by simp
qed

section \<open>The invariant of the registry\<close>

text \<open>
  Claim C7. Whatever create, delete and list requests are served one after another,
  starting from the empty registry, the folded names of the records of the registry are
  pairwise different: for every name, at most one record has a name equal to it under
  case folding.
\<close>

theorem registry_names_unique:
  "distinct (map (\<lambda>v. cf (Name v)) (serve cf [] rs)) \<and> countName cf (serve cf [] rs) name \<le> 1"
proof -
  have d: "distinct (map (\<lambda>v. cf (Name v)) (serve cf [] rs))"
    by (rule serve_distinct) simp
  from d countName_le1 [OF d] show ?thesis by (rule conjI)
qed

text \<open>
  The theorem at a run in which \<^verbatim>\<open>dbName1\<close> is created, \<^verbatim>\<open>DBNAME1\<close> is asked
  for and the registry is listed: the two names collide, and one record is there.
\<close>

theorem registry_names_unique_witness:
  "EqualFold asciiFold ''dbName1'' ''DBNAME1'' \<and>
   serve asciiFold []
     [ReqCreateDB (Some spec1) engineUp, ReqCreateDB (Some spec1Upper) engineUp, ReqGetMetadata]
     = [record1] \<and>
   countName asciiFold
     (serve asciiFold []
        [ReqCreateDB (Some spec1) engineUp, ReqCreateDB (Some spec1Upper) engineUp, ReqGetMetadata])
     ''DBNAME1'' \<le> 1"
proof -
  have run: "serve asciiFold []
     [ReqCreateDB (Some spec1) engineUp, ReqCreateDB (Some spec1Upper) engineUp, ReqGetMetadata]
     = [record1]"
    by (simp add: create_spec1 create_spec1Upper)
  from registry_names_unique
         [of asciiFold "[ReqCreateDB (Some spec1) engineUp, ReqCreateDB (Some spec1Upper) engineUp,
                         ReqGetMetadata]" "''DBNAME1''"]
       EqualFold_dbName1 run
  show ?thesis by blast
qed

section \<open>Order of the records\<close>

text \<open>
  Claim C6. A create that succeeds puts its record at the end of the registry, so that
  after a run of creates that all succeed the listing holds the records that were there
  before followed by one record for each request, in the order of the requests. A
  delete that succeeds removes the record at one position, whose name equals the
  requested one under case folding, and leaves all other records in the order they had.
\<close>

theorem registry_keeps_creation_order:
  "(exit (createDB cf metaDataList (Some t) eng) = Created u \<longrightarrow>
      getMetadata (registry (createDB cf metaDataList (Some t) eng)) =
        metaDataList @ [metaDataOf t u]) \<and>
   (list_all isCreated (snd (createAll cf metaDataList reqs)) \<longrightarrow>
      getMetadata (fst (createAll cf metaDataList reqs)) =
        metaDataList @
        map2 (\<lambda>req e. metaDataOf (fst req) (uuidOf e)) reqs
          (snd (createAll cf metaDataList reqs))) \<and>
   (exit (deleteDB cf metaDataList dbName eng') = Deleted \<longrightarrow>
      (\<exists>p<length metaDataList. EqualFold cf (Name (metaDataList ! p)) dbName \<and>
         getMetadata (registry (deleteDB cf metaDataList dbName eng')) =
           take p metaDataList @ drop (Suc p) metaDataList))"
proof -
  have A: "exit (createDB cf metaDataList (Some t) eng) = Created u \<longrightarrow>
      getMetadata (registry (createDB cf metaDataList (Some t) eng)) =
        metaDataList @ [metaDataOf t u]"
    using createDB_appends [of cf metaDataList t eng] by (simp add: getMetadata_def)
  have B: "list_all isCreated (snd (createAll cf metaDataList reqs)) \<longrightarrow>
      getMetadata (fst (createAll cf metaDataList reqs)) =
        metaDataList @
        map2 (\<lambda>req e. metaDataOf (fst req) (uuidOf e)) reqs
          (snd (createAll cf metaDataList reqs))"
  proof
    assume "list_all isCreated (snd (createAll cf metaDataList reqs))"
    from concat_map2_all [OF this, of "\<lambda>req e. metaDataOf (fst req) (uuidOf e)" reqs]
      createAll_registry [of cf metaDataList reqs]
    show "getMetadata (fst (createAll cf metaDataList reqs)) =
        metaDataList @
        map2 (\<lambda>req e. metaDataOf (fst req) (uuidOf e)) reqs
          (snd (createAll cf metaDataList reqs))"
      by (simp add: getMetadata_def)
  qed
  have C: "exit (deleteDB cf metaDataList dbName eng') = Deleted \<longrightarrow>
      (\<exists>p<length metaDataList. EqualFold cf (Name (metaDataList ! p)) dbName \<and>
         getMetadata (registry (deleteDB cf metaDataList dbName eng')) =
           take p metaDataList @ drop (Suc p) metaDataList)"
  proof
    let ?p = "nat (findRecordsByDBName cf metaDataList dbName)"
    assume del: "exit (deleteDB cf metaDataList dbName eng') = Deleted"
    from deleteDB_Deleted [OF del]
    have found: "findRecordsByDBName cf metaDataList dbName \<noteq> - 1" by blast
    from find_range [OF found] have p: "?p < length metaDataList" by linarith
    from find_hit [OF found] have hit: "EqualFold cf (Name (metaDataList ! ?p)) dbName" by blast
    from del have "getMetadata (registry (deleteDB cf metaDataList dbName eng')) =
        take ?p metaDataList @ drop (Suc ?p) metaDataList"
      by (simp add: deleteDB_registry getMetadata_def)
    with p hit
    show "\<exists>p<length metaDataList. EqualFold cf (Name (metaDataList ! p)) dbName \<and>
         getMetadata (registry (deleteDB cf metaDataList dbName eng')) =
           take p metaDataList @ drop (Suc p) metaDataList"
      by blast
  qed
  show ?thesis by (rule conjI [OF A conjI [OF B C]])
qed

text \<open>
  The theorem at three creates in a row from the empty registry, and at the removal of
  the second of the three records.
\<close>

theorem registry_keeps_creation_order_witness:
  "exit (createDB asciiFold [] (Some spec1) engineUp) = Created ''100934786117271616'' \<and>
   getMetadata (registry (createDB asciiFold [] (Some spec1) engineUp)) = [record1] \<and>
   list_all isCreated (snd (createAll asciiFold []
     [(spec1, engineUp), (spec2, engineUp\<lparr>uuidAns := Replies 100934786117271617\<rparr>),
      (spec3, engineUp\<lparr>uuidAns := Replies 100934786117271618\<rparr>)])) \<and>
   getMetadata (fst (createAll asciiFold []
     [(spec1, engineUp), (spec2, engineUp\<lparr>uuidAns := Replies 100934786117271617\<rparr>),
      (spec3, engineUp\<lparr>uuidAns := Replies 100934786117271618\<rparr>)])) =
     [record1, record2, record3] \<and>
   exit (deleteDB asciiFold [record1, record2, record3] ''dbName2'' engineUp) = Deleted \<and>
   (\<exists>p<length [record1, record2, record3].
      EqualFold asciiFold (Name ([record1, record2, record3] ! p)) ''dbName2'' \<and>
      getMetadata (registry (deleteDB asciiFold [record1, record2, record3] ''dbName2'' engineUp)) =
        take p [record1, record2, record3] @ drop (Suc p) [record1, record2, record3]) \<and>
   getMetadata (registry (deleteDB asciiFold [record1, record2, record3] ''dbName2'' engineUp)) =
     [record1, record3]"
proof -
  let ?reqs = "[(spec1, engineUp), (spec2, engineUp\<lparr>uuidAns := Replies 100934786117271617\<rparr>),
      (spec3, engineUp\<lparr>uuidAns := Replies 100934786117271618\<rparr>)]"
  have h1: "exit (createDB asciiFold [] (Some spec1) engineUp) = Created ''100934786117271616''"
    by (simp add: create_spec1)
  have h2: "list_all isCreated (snd (createAll asciiFold [] ?reqs))"
    unfolding createAll_three by simp
  have h3: "exit (deleteDB asciiFold [record1, record2, record3] ''dbName2'' engineUp) = Deleted"
    by (simp add: delete_middle)
  note T1 = registry_keeps_creation_order
    [of asciiFold "[]" spec1 engineUp "''100934786117271616''" ?reqs "''dbName2''" engineUp]
  note T2 = registry_keeps_creation_order
    [of asciiFold "[record1, record2, record3]" spec1 engineUp "''100934786117271616''" ?reqs
        "''dbName2''" engineUp]
  from T1 h1 have "getMetadata (registry (createDB asciiFold [] (Some spec1) engineUp)) =
      [] @ [metaDataOf spec1 ''100934786117271616'']"
    by blast
  then have c1: "getMetadata (registry (createDB asciiFold [] (Some spec1) engineUp)) = [record1]"
    by (simp add: metaDataOf_def spec1_def record1_def)
  from T1 h2 have c2': "getMetadata (fst (createAll asciiFold [] ?reqs)) =
      [] @ map2 (\<lambda>req e. metaDataOf (fst req) (uuidOf e)) ?reqs (snd (createAll asciiFold [] ?reqs))"
    by blast
  have "map2 (\<lambda>req e. metaDataOf (fst req) (uuidOf e)) ?reqs (snd (createAll asciiFold [] ?reqs))
      = [record1, record2, record3]"
    unfolding createAll_three
    by (simp add: metaDataOf_def spec1_def spec2_def spec3_def record1_def record2_def record3_def)
  with c2' have c2: "getMetadata (fst (createAll asciiFold [] ?reqs)) = [record1, record2, record3]"
    by simp
  from T2 h3 have c3: "\<exists>p<length [record1, record2, record3].
      EqualFold asciiFold (Name ([record1, record2, record3] ! p)) ''dbName2'' \<and>
      getMetadata (registry (deleteDB asciiFold [record1, record2, record3] ''dbName2'' engineUp)) =
        take p [record1, record2, record3] @ drop (Suc p) [record1, record2, record3]"
    by blast
  have c4: "getMetadata (registry (deleteDB asciiFold [record1, record2, record3] ''dbName2''
      engineUp)) = [record1, record3]"
    by (simp add: delete_middle getMetadata_def)
  from h1 c1 h2 c2 h3 c3 c4 show ?thesis by blast
qed

section \<open>Create, list, delete, list\<close>

text \<open>
  Claim C5. Take any registry reached by serving requests from the empty one. When a
  create of a name succeeds there with identity \<open>I\<close>, it has written \<open>I\<close> to the
  response, and the listing holds exactly one record whose name equals the created one
  under case folding, with \<open>I\<close> as its stored identity. When, after any further
  requests, a delete of a name equal to it under case folding succeeds, the listing
  holds no record whose name equals it under case folding.
\<close>

theorem create_delete_round_trip:
  fixes cf :: folding and before t eng between dbName eng'
  defines "r \<equiv> createDB cf (serve cf [] before) (Some t) eng"
  defines "d \<equiv> deleteDB cf (serve cf (registry r) between) dbName eng'"
  assumes created: "exit r = Created I"
  shows "response r = [''UUID of DB created: '', encodeJSON I] \<and>
         countName cf (getMetadata (registry r)) (Name t) = 1 \<and>
         (\<forall>v\<in>set (getMetadata (registry r)). EqualFold cf (Name v) (Name t) \<longrightarrow> uuid v = I) \<and>
         (EqualFold cf dbName (Name t) \<and> exit d = Deleted \<longrightarrow>
            countName cf (getMetadata (registry d)) (Name t) = 0)"
proof -
  let ?mdl = "serve cf [] before"
  from created have created': "exit (createDB cf ?mdl (Some t) eng) = Created I"
    by (simp add: r_def)
  from createDB_Created [OF created']
  have absent: "findRecordsByDBName cf ?mdl (Name t) = - 1" by simp
  have reg: "registry r = ?mdl @ [metaDataOf t I]"
    using createDB_appends [of cf ?mdl t eng] created' by (simp add: r_def)
  have A: "response r = [''UUID of DB created: '', encodeJSON I]"
    using createDB_response [OF created'] by (simp add: r_def)
  from absent have zero: "countName cf ?mdl (Name t) = 0"
    by (simp add: countName_zero_iff)
  have B: "countName cf (getMetadata (registry r)) (Name t) = 1"
    using zero
    by (simp add: getMetadata_def reg countName_append)
       (simp add: countName_def metaDataOf_def EqualFold_def)
  from absent have none: "\<forall>v\<in>set ?mdl. \<not> EqualFold cf (Name v) (Name t)"
    by (simp add: find_none_iff)
  have C: "\<forall>v\<in>set (getMetadata (registry r)). EqualFold cf (Name v) (Name t) \<longrightarrow> uuid v = I"
    using none by (auto simp: getMetadata_def reg metaDataOf_def)
  have D: "EqualFold cf dbName (Name t) \<and> exit d = Deleted \<longrightarrow>
      countName cf (getMetadata (registry d)) (Name t) = 0"
  proof
    let ?mdl' = "serve cf (registry r) between"
    assume a: "EqualFold cf dbName (Name t) \<and> exit d = Deleted"
    have "distinct (map (\<lambda>v. cf (Name v)) ?mdl)"
      by (rule serve_distinct) simp
    then have "distinct (map (\<lambda>v. cf (Name v)) (registry r))"
      unfolding r_def by (rule createDB_distinct)
    then have "distinct (map (\<lambda>v. cf (Name v)) ?mdl')"
      by (rule serve_distinct)
    then have le1: "countName cf ?mdl' dbName \<le> 1"
      by (rule countName_le1)
    from a have "exit (deleteDB cf ?mdl' dbName eng') = Deleted"
      by (simp add: d_def)
    from deleteDB_count [OF this] le1 have "countName cf (registry d) dbName = 0"
      by (simp add: d_def)
    moreover from a have "countName cf (registry d) dbName = countName cf (registry d) (Name t)"
      by (simp add: countName_cong)
    ultimately show "countName cf (getMetadata (registry d)) (Name t) = 0"
      by (simp add: getMetadata_def)
  qed
  show ?thesis by (rule conjI [OF A conjI [OF B conjI [OF C D]]])
qed

text \<open>
  The theorem at the run of the example: \<^verbatim>\<open>dbName1\<close> is created in the empty
  registry, then \<^verbatim>\<open>dbName2\<close> is created and the registry is listed, then
  \<^verbatim>\<open>DBNAME1\<close> is deleted.
\<close>

theorem create_delete_round_trip_witness:
  "exit (createDB asciiFold (serve asciiFold [] []) (Some spec1) engineUp) =
     Created ''100934786117271616'' \<and>
   response (createDB asciiFold (serve asciiFold [] []) (Some spec1) engineUp) =
     [''UUID of DB created: '', encodeJSON ''100934786117271616''] \<and>
   getMetadata (registry (createDB asciiFold (serve asciiFold [] []) (Some spec1) engineUp)) =
     [record1] \<and>
   countName asciiFold
     (getMetadata (registry (createDB asciiFold (serve asciiFold [] []) (Some spec1) engineUp)))
     (Name spec1) = 1 \<and>
   EqualFold asciiFold ''DBNAME1'' (Name spec1) \<and>
   exit (deleteDB asciiFold
     (serve asciiFold (registry (createDB asciiFold (serve asciiFold [] []) (Some spec1) engineUp))
        [ReqCreateDB (Some spec2) (engineUp\<lparr>uuidAns := Replies 100934786117271617\<rparr>),
         ReqGetMetadata])
     ''DBNAME1'' engineUp) = Deleted \<and>
   countName asciiFold
     (getMetadata (registry (deleteDB asciiFold
       (serve asciiFold (registry (createDB asciiFold (serve asciiFold [] []) (Some spec1) engineUp))
          [ReqCreateDB (Some spec2) (engineUp\<lparr>uuidAns := Replies 100934786117271617\<rparr>),
           ReqGetMetadata])
       ''DBNAME1'' engineUp)))
     (Name spec1) = 0"
proof -
  let ?r = "createDB asciiFold (serve asciiFold [] []) (Some spec1) engineUp"
  let ?between = "[ReqCreateDB (Some spec2) (engineUp\<lparr>uuidAns := Replies 100934786117271617\<rparr>),
         ReqGetMetadata]"
  let ?d = "deleteDB asciiFold (serve asciiFold (registry ?r) ?between) ''DBNAME1'' engineUp"
  have h1: "exit ?r = Created ''100934786117271616''"
    by (simp add: create_spec1)
  have reg: "getMetadata (registry ?r) = [record1]"
    by (simp add: create_spec1 getMetadata_def)
  have h2: "EqualFold asciiFold ''DBNAME1'' (Name spec1)"
    by (simp add: spec1_def EqualFold_def asciiFold_dbName1 asciiFold_DBNAME1)
  have h3: "exit ?d = Deleted"
    by (simp add: create_spec1 create_spec2 delete_upper)
  note T = create_delete_round_trip
    [where cf = asciiFold and before = "[]" and t = spec1 and eng = engineUp
       and I = "''100934786117271616''" and between = ?between and dbName = "''DBNAME1''"
       and eng' = engineUp, OF h1]
  from T have c1: "response ?r = [''UUID of DB created: '', encodeJSON ''100934786117271616'']"
    by blast
  from T have c2: "countName asciiFold (getMetadata (registry ?r)) (Name spec1) = 1"
    by blast
  from T h2 h3 have c3: "countName asciiFold (getMetadata (registry ?d)) (Name spec1) = 0"
    by blast
  from h1 c1 reg c2 h2 h3 c3 show ?thesis by blast
qed

section \<open>Handles left open\<close>

text \<open>
  Claim C9 asks that every handle a request opens is closed on every exit path, the
  handle \<open>createDB\<close> opens without a database name in particular, whatever the
  \<^verbatim>\<open>CREATE\<close> statement does. The run below is a create whose \<^verbatim>\<open>CREATE\<close> statement
  the engine refuses: \<open>createDB\<close> returns at line 100, the \<^verbatim>\<open>db.Close()\<close> of line
  108 is not reached and no \<^verbatim>\<open>defer\<close> covers this handle, so that handle 0 is still
  open when the handler has returned.
\<close>

theorem createDB_leaves_handle_open:
  "exit (createDB asciiFold [] (Some spec1) (engineUp\<lparr>execAns := Refuses\<rparr>)) = ExecError Failure \<and>
   calls (createDB asciiFold [] (Some spec1) (engineUp\<lparr>execAns := Refuses\<rparr>)) =
     [SqlOpen ''mysql'' (dsn []) (Some 0),
      ExecContext 0 5 ''CREATE DATABASE IF NOT EXISTS dbName1''] \<and>
   openHandles (calls (createDB asciiFold [] (Some spec1) (engineUp\<lparr>execAns := Refuses\<rparr>))) []
     = [0]"
  by (simp add: create_refused)

section \<open>What the caller is told of a failure\<close>

text \<open>
  Claim C10 as stated (every failing create or delete hands the caller a typed failure,
  malformed input included, and no input makes a handler panic or return in silence)
  fails on the code. A request whose body does not decode makes \<open>createDB\<close> panic; a
  create of a name that is registered and a delete of a name that is not both return with
  nothing written to the response.
\<close>

theorem failure_without_response_counterexample:
  "createDB asciiFold [] None engineUp =
     \<lparr>registry = [], response = [], calls = [], exit = Panicked\<rparr> \<and>
   createDB asciiFold [record1] (Some spec1Upper) engineUp =
     \<lparr>registry = [record1], response = [], calls = [], exit = DBPresent\<rparr> \<and>
   deleteDB asciiFold [record1] ''ghost'' engineUp =
     \<lparr>registry = [record1], response = [], calls = [], exit = DBNotPresent\<rparr>"
  by (simp add: create_malformed create_spec1Upper delete_ghost)

text \<open>
  Claim C10, amended. A request whose body does not decode makes \<open>createDB\<close> panic.
  Whenever \<open>createDB\<close> ends in any other way than by creating, it has written nothing
  to the response; when it creates, it has written the identity. \<open>deleteDB\<close> writes
  nothing to the response, however it ends.
\<close>

theorem failures_write_no_response:
  "exit (createDB cf metaDataList None eng) = Panicked \<and>
   ((\<forall>u. exit (createDB cf metaDataList body eng) \<noteq> Created u) \<longrightarrow>
      response (createDB cf metaDataList body eng) = []) \<and>
   (exit (createDB cf metaDataList body eng) = Created u \<longrightarrow>
      response (createDB cf metaDataList body eng) = [''UUID of DB created: '', encodeJSON u]) \<and>
   response (deleteDB cf metaDataList dbName eng') = []"
proof -
  have A: "exit (createDB cf metaDataList None eng) = Panicked"
    by (simp add: createDB_def)
  have B: "(\<forall>u. exit (createDB cf metaDataList body eng) \<noteq> Created u) \<longrightarrow>
      response (createDB cf metaDataList body eng) = []"
    using createDB_no_response by blast
  have C: "exit (createDB cf metaDataList body eng) = Created u \<longrightarrow>
      response (createDB cf metaDataList body eng) = [''UUID of DB created: '', encodeJSON u]"
    using createDB_response by blast
  have D: "response (deleteDB cf metaDataList dbName eng') = []"
    by (simp add: deleteDB_cases)
  show ?thesis by (rule conjI [OF A conjI [OF B conjI [OF C D]]])
qed

text \<open>
  The theorem at a create whose \<^verbatim>\<open>CREATE\<close> statement is refused and at a create that
  succeeds.
\<close>

theorem failures_write_no_response_witness:
  "(\<forall>u. exit (createDB asciiFold [] (Some spec1) (engineUp\<lparr>execAns := Refuses\<rparr>)) \<noteq> Created u) \<and>
   response (createDB asciiFold [] (Some spec1) (engineUp\<lparr>execAns := Refuses\<rparr>)) = [] \<and>
   exit (createDB asciiFold [] (Some spec1) engineUp) = Created ''100934786117271616'' \<and>
   response (createDB asciiFold [] (Some spec1) engineUp) =
     [''UUID of DB created: '', encodeJSON ''100934786117271616'']"
proof -
  have h1: "\<forall>u. exit (createDB asciiFold [] (Some spec1) (engineUp\<lparr>execAns := Refuses\<rparr>))
      \<noteq> Created u"
    by (simp add: create_refused)
  have h2: "exit (createDB asciiFold [] (Some spec1) engineUp) = Created ''100934786117271616''"
    by (simp add: create_spec1)
  from failures_write_no_response
         [where cf = asciiFold and metaDataList = "[]" and body = "Some spec1"
            and eng = "engineUp\<lparr>execAns := Refuses\<rparr>"] h1
  have c1: "response (createDB asciiFold [] (Some spec1) (engineUp\<lparr>execAns := Refuses\<rparr>)) = []"
    by blast
  from failures_write_no_response
         [where cf = asciiFold and metaDataList = "[]" and body = "Some spec1"
            and eng = engineUp and u = "''100934786117271616''"] h2
  have c2: "response (createDB asciiFold [] (Some spec1) engineUp) =
     [''UUID of DB created: '', encodeJSON ''100934786117271616'']"
    by blast
  from h1 c1 h2 c2 show ?thesis by blast
qed

section \<open>Deadlines of the calls on the engine\<close>

text \<open>
  Claim C8 as stated (every call on the engine, the opens and the identity fetch
  included, is issued under a deadline of 5 time units) fails on the code. In the run of
  a create that succeeds, the first call is an \<^verbatim>\<open>sql.Open\<close>, which is issued without
  a deadline, and so is the \<^verbatim>\<open>QueryRow\<close> that fetches the identity.
\<close>

theorem call_without_deadline_counterexample:
  "calls (createDB asciiFold [] (Some spec1) engineUp) =
     [SqlOpen ''mysql'' (dsn []) (Some 0),
      ExecContext 0 5 ''CREATE DATABASE IF NOT EXISTS dbName1'',
      DBClose 0,
      SqlOpen ''mysql'' (dsn ''dbName1'') (Some 1),
      PingContext 1 5,
      QueryRow 1 ''SELECT UUID_SHORT()'',
      DBClose 1] \<and>
   deadline (SqlOpen ''mysql'' (dsn []) (Some 0)) = None \<and>
   deadline (QueryRow 1 ''SELECT UUID_SHORT()'') = None"
  by (simp add: create_spec1)

text \<open>
  Claim C8, amended. Every \<^verbatim>\<open>ExecContext\<close> (the \<^verbatim>\<open>CREATE\<close> and the \<^verbatim>\<open>DROP\<close>
  statement) and every \<^verbatim>\<open>PingContext\<close> that \<open>createDB\<close> and \<open>deleteDB\<close> issue
  carries a deadline of 5 seconds, and every \<^verbatim>\<open>sql.Open\<close> is issued without one. When
  the engine does not answer the \<^verbatim>\<open>CREATE\<close> statement, the ping or the \<^verbatim>\<open>DROP\<close>
  statement, the call ends at the deadline with the error of the context, the handler
  returns on the error path of that call, and the registry is the one it found.
  \<open>deleteDB\<close> never waits without a bound.
\<close>

theorem exec_and_ping_under_deadline:
  "(c \<in> set (calls (createDB cf metaDataList body eng)) \<union>
          set (calls (deleteDB cf metaDataList dbName eng')) \<longrightarrow>
      (case c of
         ExecContext h d stmt \<Rightarrow> deadline c = Some 5
       | PingContext h d \<Rightarrow> deadline c = Some 5
       | SqlOpen driver d h \<Rightarrow> deadline c = None
       | _ \<Rightarrow> True)) \<and>
   (findRecordsByDBName cf metaDataList (Name t) = - 1 \<and> openOk eng (Engine t) (dsn []) \<and>
    execAns eng = Silent \<longrightarrow>
      exit (createDB cf metaDataList (Some t) eng) = ExecError DeadlineExceeded \<and>
      registry (createDB cf metaDataList (Some t) eng) = metaDataList) \<and>
   (findRecordsByDBName cf metaDataList (Name t) = - 1 \<and> openOk eng (Engine t) (dsn []) \<and>
    execAns eng = Replies () \<and> rowsOk eng \<and> openOk eng (Engine t) (dsn (Name t)) \<and>
    pingAns eng = Silent \<longrightarrow>
      exit (createDB cf metaDataList (Some t) eng) = PingError DeadlineExceeded \<and>
      registry (createDB cf metaDataList (Some t) eng) = metaDataList) \<and>
   (findRecordsByDBName cf metaDataList dbName \<noteq> - 1 \<and> openOk eng' ''mysql'' (dsn dbName) \<and>
    execAns eng' = Silent \<longrightarrow>
      exit (deleteDB cf metaDataList dbName eng') = ExecError DeadlineExceeded \<and>
      registry (deleteDB cf metaDataList dbName eng') = metaDataList) \<and>
   exit (deleteDB cf metaDataList dbName eng') \<noteq> Blocked"
proof -
  have A: "c \<in> set (calls (createDB cf metaDataList body eng)) \<union>
          set (calls (deleteDB cf metaDataList dbName eng')) \<longrightarrow>
      (case c of
         ExecContext h d stmt \<Rightarrow> deadline c = Some 5
       | PingContext h d \<Rightarrow> deadline c = Some 5
       | SqlOpen driver d h \<Rightarrow> deadline c = None
       | _ \<Rightarrow> True)"
  proof
    assume "c \<in> set (calls (createDB cf metaDataList body eng)) \<union>
          set (calls (deleteDB cf metaDataList dbName eng'))"
    then have "case c of ExecContext h d stmt \<Rightarrow> d = 5 | PingContext h d \<Rightarrow> d = 5 | _ \<Rightarrow> True"
      using createDB_deadlines [of c cf metaDataList body eng]
            deleteDB_deadlines [of c cf metaDataList dbName eng']
      by blast
    then show "case c of
         ExecContext h d stmt \<Rightarrow> deadline c = Some 5
       | PingContext h d \<Rightarrow> deadline c = Some 5
       | SqlOpen driver d h \<Rightarrow> deadline c = None
       | _ \<Rightarrow> True"
      by (cases c) simp_all
  qed
  have B: "findRecordsByDBName cf metaDataList (Name t) = - 1 \<and> openOk eng (Engine t) (dsn []) \<and>
    execAns eng = Silent \<longrightarrow>
      exit (createDB cf metaDataList (Some t) eng) = ExecError DeadlineExceeded \<and>
      registry (createDB cf metaDataList (Some t) eng) = metaDataList"
    by (simp add: createDB_absent provision_def)
  have C: "findRecordsByDBName cf metaDataList (Name t) = - 1 \<and> openOk eng (Engine t) (dsn []) \<and>
    execAns eng = Replies () \<and> rowsOk eng \<and> openOk eng (Engine t) (dsn (Name t)) \<and>
    pingAns eng = Silent \<longrightarrow>
      exit (createDB cf metaDataList (Some t) eng) = PingError DeadlineExceeded \<and>
      registry (createDB cf metaDataList (Some t) eng) = metaDataList"
    by (simp add: createDB_absent provision_def)
  have D: "findRecordsByDBName cf metaDataList dbName \<noteq> - 1 \<and> openOk eng' ''mysql'' (dsn dbName) \<and>
    execAns eng' = Silent \<longrightarrow>
      exit (deleteDB cf metaDataList dbName eng') = ExecError DeadlineExceeded \<and>
      registry (deleteDB cf metaDataList dbName eng') = metaDataList"
    by (simp add: deleteDB_cases)
  have E: "exit (deleteDB cf metaDataList dbName eng') \<noteq> Blocked"
    by (cases "execAns eng'") (simp_all add: deleteDB_cases)
  show ?thesis by (rule conjI [OF A conjI [OF B conjI [OF C conjI [OF D E]]]])
qed

text \<open>
  The theorem at the \<^verbatim>\<open>CREATE\<close> call of a create that succeeds, and at a create and
  a delete that the engine leaves without an answer.
\<close>

theorem exec_and_ping_under_deadline_witness:
  "ExecContext 0 5 ''CREATE DATABASE IF NOT EXISTS dbName1''
     \<in> set (calls (createDB asciiFold [] (Some spec1) engineUp)) \<and>
   deadline (ExecContext 0 5 ''CREATE DATABASE IF NOT EXISTS dbName1'') = Some 5 \<and>
   findRecordsByDBName asciiFold [] (Name spec1) = - 1 \<and>
   execAns (engineUp\<lparr>execAns := Silent\<rparr>) = Silent \<and>
   exit (createDB asciiFold [] (Some spec1) (engineUp\<lparr>execAns := Silent\<rparr>))
     = ExecError DeadlineExceeded \<and>
   pingAns (engineUp\<lparr>pingAns := Silent\<rparr>) = Silent \<and>
   exit (createDB asciiFold [] (Some spec1) (engineUp\<lparr>pingAns := Silent\<rparr>))
     = PingError DeadlineExceeded \<and>
   registry (createDB asciiFold [] (Some spec1) (engineUp\<lparr>pingAns := Silent\<rparr>)) = [] \<and>
   findRecordsByDBName asciiFold [record1] ''DBNAME1'' \<noteq> - 1 \<and>
   exit (deleteDB asciiFold [record1] ''DBNAME1'' (engineUp\<lparr>execAns := Silent\<rparr>))
     = ExecError DeadlineExceeded \<and>
   registry (deleteDB asciiFold [record1] ''DBNAME1'' (engineUp\<lparr>execAns := Silent\<rparr>))
     = [record1]"
proof -
  let ?c = "ExecContext 0 5 ''CREATE DATABASE IF NOT EXISTS dbName1''"
  have h1: "?c \<in> set (calls (createDB asciiFold [] (Some spec1) engineUp)) \<union>
      set (calls (deleteDB asciiFold [record1] ''DBNAME1'' (engineUp\<lparr>execAns := Silent\<rparr>)))"
    by (simp add: create_spec1)
  have h1': "?c \<in> set (calls (createDB asciiFold [] (Some spec1) engineUp))"
    by (simp add: create_spec1)
  have h2: "findRecordsByDBName asciiFold [] (Name spec1) = - 1"
    by (simp add: findRecordsByDBName_def)
  have h3: "openOk (engineUp\<lparr>execAns := Silent\<rparr>) (Engine spec1) (dsn []) \<and>
      execAns (engineUp\<lparr>execAns := Silent\<rparr>) = Silent"
    by (simp add: engineUp_def spec1_def)
  have h4: "openOk (engineUp\<lparr>pingAns := Silent\<rparr>) (Engine spec1) (dsn []) \<and>
      execAns (engineUp\<lparr>pingAns := Silent\<rparr>) = Replies () \<and>
      rowsOk (engineUp\<lparr>pingAns := Silent\<rparr>) \<and>
      openOk (engineUp\<lparr>pingAns := Silent\<rparr>) (Engine spec1) (dsn (Name spec1)) \<and>
      pingAns (engineUp\<lparr>pingAns := Silent\<rparr>) = Silent"
    by (simp add: engineUp_def spec1_def)
  have h5: "findRecordsByDBName asciiFold [record1] ''DBNAME1'' \<noteq> - 1"
    using EqualFold_dbName1 by (simp add: findRecordsByDBName_def record1_def)
  have h6: "openOk (engineUp\<lparr>execAns := Silent\<rparr>) ''mysql'' (dsn ''DBNAME1'') \<and>
      execAns (engineUp\<lparr>execAns := Silent\<rparr>) = Silent"
    by (simp add: engineUp_def)
  note T1 = exec_and_ping_under_deadline
    [where c = ?c and cf = asciiFold and metaDataList = "[]" and body = "Some spec1"
       and eng = engineUp and dbName = "''DBNAME1''" and eng' = "engineUp\<lparr>execAns := Silent\<rparr>"]
  note T2 = exec_and_ping_under_deadline
    [where cf = asciiFold and metaDataList = "[]" and t = spec1
       and eng = "engineUp\<lparr>execAns := Silent\<rparr>"]
  note T3 = exec_and_ping_under_deadline
    [where cf = asciiFold and metaDataList = "[]" and t = spec1
       and eng = "engineUp\<lparr>pingAns := Silent\<rparr>"]
  note T4 = exec_and_ping_under_deadline
    [where cf = asciiFold and metaDataList = "[record1]" and dbName = "''DBNAME1''"
       and eng' = "engineUp\<lparr>execAns := Silent\<rparr>"]
  from T1 h1 have c1: "deadline ?c = Some 5" by simp
  from T2 h2 h3 have c2: "exit (createDB asciiFold [] (Some spec1) (engineUp\<lparr>execAns := Silent\<rparr>))
      = ExecError DeadlineExceeded"
    by blast
  from T3 h2 h4 have c3: "exit (createDB asciiFold [] (Some spec1) (engineUp\<lparr>pingAns := Silent\<rparr>))
      = PingError DeadlineExceeded \<and>
      registry (createDB asciiFold [] (Some spec1) (engineUp\<lparr>pingAns := Silent\<rparr>)) = []"
    by blast
  from T4 h5 h6 have c4: "exit (deleteDB asciiFold [record1] ''DBNAME1'' (engineUp\<lparr>execAns := Silent\<rparr>))
      = ExecError DeadlineExceeded \<and>
      registry (deleteDB asciiFold [record1] ''DBNAME1'' (engineUp\<lparr>execAns := Silent\<rparr>))
      = [record1]"
    by blast
  from h1' c1 h2 h3 c2 h4 c3 h5 c4 show ?thesis by blast
qed

section \<open>Creates of one name at the same time\<close>

text \<open>
  Claim C3 as stated (the registry operations run under one lock, so that of two
  concurrent creates of one name exactly one inserts a record and the other is rejected
  as a duplicate) fails on the code, which takes no lock. In the run below the two
  goroutines alternate: both creates pass the lookup of line 74 before either reaches
  the append of line 157, both succeed, and the registry ends with two records whose
  names are equal under case folding.
\<close>

theorem concurrent_creates_counterexample:
  "interleave asciiFold [First, Second, First, Second]
     ([], Arrived spec1 engineUp,
      Arrived spec1Upper (engineUp\<lparr>uuidAns := Replies 100934786117271617\<rparr>)) =
     ([record1, record1Upper],
      Ended (Created ''100934786117271616''), Ended (Created ''100934786117271617'')) \<and>
   EqualFold asciiFold (Name record1) (Name record1Upper)"
  using EqualFold_dbName1
  by (simp only: interleave.simps step_spec1 step_spec1Upper prod.case stepCreate.simps(2))
     (simp add: record1_def record1Upper_def)

text \<open>
  Claim C3, amended. When two creates of names equal under case folding do not overlap,
  that is when the lookup and the append of one both come before the lookup of the
  other, then, the name not being registered and the engine serving both, exactly one
  of them inserts a record and the other ends on the "DB is present" return; and such a
  run leaves no two records with names equal under case folding in a registry that had
  none.
\<close>

theorem serial_creates_insert_once:
  "(EqualFold cf (Name t1) (Name t2) \<and> findRecordsByDBName cf metaDataList (Name t1) = - 1 \<and>
    fst (provision t1 e1) = Created u1 \<and> fst (provision t2 e2) = Created u2 \<longrightarrow>
      interleave cf [First, First, Second, Second]
          (metaDataList, Arrived t1 e1, Arrived t2 e2) =
        (metaDataList @ [metaDataOf t1 u1], Ended (Created u1), Ended DBPresent) \<and>
      interleave cf [Second, Second, First, First]
          (metaDataList, Arrived t1 e1, Arrived t2 e2) =
        (metaDataList @ [metaDataOf t2 u2], Ended DBPresent, Ended (Created u2))) \<and>
   (distinct (map (\<lambda>v. cf (Name v)) metaDataList) \<longrightarrow>
      distinct (map (\<lambda>v. cf (Name v))
        (fst (interleave cf [First, First, Second, Second]
                (metaDataList, Arrived t1 e1, Arrived t2 e2)))) \<and>
      distinct (map (\<lambda>v. cf (Name v))
        (fst (interleave cf [Second, Second, First, First]
                (metaDataList, Arrived t1 e1, Arrived t2 e2)))))"
proof -
  have A: "EqualFold cf (Name t1) (Name t2) \<and> findRecordsByDBName cf metaDataList (Name t1) = - 1 \<and>
    fst (provision t1 e1) = Created u1 \<and> fst (provision t2 e2) = Created u2 \<longrightarrow>
      interleave cf [First, First, Second, Second]
          (metaDataList, Arrived t1 e1, Arrived t2 e2) =
        (metaDataList @ [metaDataOf t1 u1], Ended (Created u1), Ended DBPresent) \<and>
      interleave cf [Second, Second, First, First]
          (metaDataList, Arrived t1 e1, Arrived t2 e2) =
        (metaDataList @ [metaDataOf t2 u2], Ended DBPresent, Ended (Created u2))"
  proof
    assume a: "EqualFold cf (Name t1) (Name t2) \<and>
      findRecordsByDBName cf metaDataList (Name t1) = - 1 \<and>
      fst (provision t1 e1) = Created u1 \<and> fst (provision t2 e2) = Created u2"
    then have eq: "cf (Name t1) = cf (Name t2)" by (simp add: EqualFold_def)
    from a have absent1: "findRecordsByDBName cf metaDataList (Name t1) = - 1" by blast
    then have absent2: "findRecordsByDBName cf metaDataList (Name t2) = - 1"
      using eq by (simp add: find_none_iff EqualFold_def)
    have first1: "createDB cf metaDataList (Some t1) e1 =
        \<lparr>registry = metaDataList @ [metaDataOf t1 u1],
         response = snd (snd (provision t1 e1)), calls = fst (snd (provision t1 e1)),
         exit = Created u1\<rparr>"
      using a absent1 by (simp add: createDB_absent)
    have first2: "createDB cf metaDataList (Some t2) e2 =
        \<lparr>registry = metaDataList @ [metaDataOf t2 u2],
         response = snd (snd (provision t2 e2)), calls = fst (snd (provision t2 e2)),
         exit = Created u2\<rparr>"
      using a absent2 by (simp add: createDB_absent)
    have "findRecordsByDBName cf (metaDataList @ [metaDataOf t1 u1]) (Name t2) \<noteq> - 1"
      using eq by (simp add: find_none_iff EqualFold_def metaDataOf_def)
    then have second2: "createDB cf (metaDataList @ [metaDataOf t1 u1]) (Some t2) e2 =
        \<lparr>registry = metaDataList @ [metaDataOf t1 u1], response = [], calls = [],
         exit = DBPresent\<rparr>"
      by (rule createDB_present)
    have "findRecordsByDBName cf (metaDataList @ [metaDataOf t2 u2]) (Name t1) \<noteq> - 1"
      using eq by (simp add: find_none_iff EqualFold_def metaDataOf_def)
    then have second1: "createDB cf (metaDataList @ [metaDataOf t2 u2]) (Some t1) e1 =
        \<lparr>registry = metaDataList @ [metaDataOf t2 u2], response = [], calls = [],
         exit = DBPresent\<rparr>"
      by (rule createDB_present)
    show "interleave cf [First, First, Second, Second]
          (metaDataList, Arrived t1 e1, Arrived t2 e2) =
        (metaDataList @ [metaDataOf t1 u1], Ended (Created u1), Ended DBPresent) \<and>
      interleave cf [Second, Second, First, First]
          (metaDataList, Arrived t1 e1, Arrived t2 e2) =
        (metaDataList @ [metaDataOf t2 u2], Ended DBPresent, Ended (Created u2))"
      by (simp only: interleave_serial interleave_serial' first1 first2)
         (simp add: second1 second2)
  qed
  have B: "distinct (map (\<lambda>v. cf (Name v)) metaDataList) \<longrightarrow>
      distinct (map (\<lambda>v. cf (Name v))
        (fst (interleave cf [First, First, Second, Second]
                (metaDataList, Arrived t1 e1, Arrived t2 e2)))) \<and>
      distinct (map (\<lambda>v. cf (Name v))
        (fst (interleave cf [Second, Second, First, First]
                (metaDataList, Arrived t1 e1, Arrived t2 e2))))"
    by (simp only: interleave_serial interleave_serial' fst_conv)
       (simp add: createDB_distinct)
  show ?thesis by (rule conjI [OF A B])
qed

text \<open>
  The theorem at the two creates of the run above, served one after the other, in both
  orders.
\<close>

theorem serial_creates_insert_once_witness:
  "EqualFold asciiFold (Name spec1) (Name spec1Upper) \<and>
   findRecordsByDBName asciiFold [] (Name spec1) = - 1 \<and>
   fst (provision spec1 engineUp) = Created ''100934786117271616'' \<and>
   fst (provision spec1Upper (engineUp\<lparr>uuidAns := Replies 100934786117271617\<rparr>)) =
     Created ''100934786117271617'' \<and>
   interleave asciiFold [First, First, Second, Second]
     ([], Arrived spec1 engineUp,
      Arrived spec1Upper (engineUp\<lparr>uuidAns := Replies 100934786117271617\<rparr>)) =
     ([record1], Ended (Created ''100934786117271616''), Ended DBPresent) \<and>
   interleave asciiFold [Second, Second, First, First]
     ([], Arrived spec1 engineUp,
      Arrived spec1Upper (engineUp\<lparr>uuidAns := Replies 100934786117271617\<rparr>)) =
     ([record1Upper], Ended DBPresent, Ended (Created ''100934786117271617'')) \<and>
   distinct (map (\<lambda>v. asciiFold (Name v)) []) \<and>
   distinct (map (\<lambda>v. asciiFold (Name v))
     (fst (interleave asciiFold [First, First, Second, Second]
       ([], Arrived spec1 engineUp,
        Arrived spec1Upper (engineUp\<lparr>uuidAns := Replies 100934786117271617\<rparr>)))))"
proof -
  let ?e2 = "engineUp\<lparr>uuidAns := Replies 100934786117271617\<rparr>"
  have h1: "EqualFold asciiFold (Name spec1) (Name spec1Upper)"
    using EqualFold_dbName1 by (simp add: spec1_def spec1Upper_def)
  have h2: "findRecordsByDBName asciiFold [] (Name spec1) = - 1"
    by (simp add: findRecordsByDBName_def)
  note h3 = provision_spec1
  note h4 = provision_spec1Upper
  have h5: "distinct (map (\<lambda>v. asciiFold (Name v)) [])"
    by simp
  note T = serial_creates_insert_once
    [where cf = asciiFold and metaDataList = "[]" and ?t1.0 = spec1 and ?t2.0 = spec1Upper
       and ?e1.0 = engineUp and ?e2.0 = ?e2 and ?u1.0 = "''100934786117271616''"
       and ?u2.0 = "''100934786117271617''"]
  from T h1 h2 h3 h4
  have c1: "interleave asciiFold [First, First, Second, Second]
      ([], Arrived spec1 engineUp, Arrived spec1Upper ?e2) =
      ([] @ [metaDataOf spec1 ''100934786117271616''],
       Ended (Created ''100934786117271616''), Ended DBPresent)"
    by blast
  from T h1 h2 h3 h4
  have c2: "interleave asciiFold [Second, Second, First, First]
      ([], Arrived spec1 engineUp, Arrived spec1Upper ?e2) =
      ([] @ [metaDataOf spec1Upper ''100934786117271617''],
       Ended DBPresent, Ended (Created ''100934786117271617''))"
    by blast
  from T h5
  have c3: "distinct (map (\<lambda>v. asciiFold (Name v))
     (fst (interleave asciiFold [First, First, Second, Second]
       ([], Arrived spec1 engineUp, Arrived spec1Upper ?e2))))"
    by blast
  have m1: "[] @ [metaDataOf spec1 ''100934786117271616''] = [record1]"
    by (simp add: metaDataOf_def spec1_def record1_def)
  have m2: "[] @ [metaDataOf spec1Upper ''100934786117271617''] = [record1Upper]"
    by (simp add: metaDataOf_def spec1Upper_def record1Upper_def)
  from h1 h2 h3 h4 c1 [unfolded m1] c2 [unfolded m2] h5 c3 show ?thesis by blast
qed

end
